theory Spec2Isabelle
  imports Main "HOL-Library.Word"
begin

section \<open>The VCMTPv3 sender: data model\<close>

text \<open>
  A shallow embedding of the sender side of VCMTPv3 (\<^verbatim>\<open>VCMTPv3/sender\<close>):
  the list of retransmission threads (\<^verbatim>\<open>RetxThreads.cpp\<close>), the retransmission
  table (\<^verbatim>\<open>senderMetadata.h\<close>) and the sender itself (\<^verbatim>\<open>vcmtpSendv3.cpp\<close>).
  Machine integers are words of their C width, pointers are addresses into an explicit
  store, exceptions are values, and everything the operating system decides (the result
  of a socket call, the value of an uninitialised local) is an explicit argument.
\<close>

type_synonym byte = "8 word"
type_synonym uint16_t = "16 word"
type_synonym uint32_t = "32 word"
type_synonym size_t = "64 word"

text \<open>A pointer is an address; \<open>NULL\<close> is address 0. A thread handle and a socket
  descriptor are the integers the operating system hands out.\<close>

type_synonym ptr = nat
type_synonym pthread_t = nat
type_synonym sockfd = int

text \<open>The memory of the sending application: one byte at every address. The sender
  never writes to it; it reads products and metadata through the pointers it was given.\<close>

type_synonym store = "ptr \<Rightarrow> byte"

definition NULL :: ptr where
  "NULL = 0"

definition read_bytes :: "store \<Rightarrow> ptr \<Rightarrow> nat \<Rightarrow> byte list" where
  "read_bytes mem p n = map mem [p ..< p + n]"


section \<open>Headers, exceptions and the retransmission entry\<close>

text \<open>
  \<^verbatim>\<open>VcmtpHeader\<close> as the worker sees it after \<^verbatim>\<open>TcpSend::parseHeader\<close>:
  the four fields in host byte order.
\<close>

record VcmtpHeader =
  prodindex :: uint32_t
  seqnum :: uint32_t
  payloadlen :: uint16_t
  flags :: uint16_t

text \<open>
  A header the sender fills for the wire holds every field in network byte order.
  \<^verbatim>\<open>htonl(x)\<close> and \<^verbatim>\<open>htons(x)\<close> are modelled by the bytes the field then has
  in memory, most significant first, which is the same on every host; a field assigned
  the literal 0 holds zero bytes.
\<close>

definition htonl :: "uint32_t \<Rightarrow> byte list" where
  "htonl x = [ucast (drop_bit 24 x), ucast (drop_bit 16 x), ucast (drop_bit 8 x), ucast x]"

definition htons :: "uint16_t \<Rightarrow> byte list" where
  "htons x = [ucast (drop_bit 8 x), ucast x]"

record VcmtpHeader_net =
  net_prodindex :: "byte list"
  net_seqnum :: "byte list"
  net_payloadlen :: "byte list"
  net_flags :: "byte list"

text \<open>
  The flag values are constants of \<^verbatim>\<open>vcmtpBase.h\<close>, which is not among the
  sources; the functions below take them as a parameter.
\<close>

record vcmtp_flags =
  VCMTP_BOP :: uint16_t
  VCMTP_EOP :: uint16_t
  VCMTP_MEM_DATA :: uint16_t
  VCMTP_RETX_REQ :: uint16_t
  VCMTP_RETX_REJ :: uint16_t
  VCMTP_RETX_END :: uint16_t
  VCMTP_RETX_DATA :: uint16_t
  VCMTP_BOP_REQ :: uint16_t
  VCMTP_RETX_BOP :: uint16_t
  VCMTP_EOP_REQ :: uint16_t
  VCMTP_RETX_EOP :: uint16_t

text \<open>
  Modelled from the spec: \<^verbatim>\<open>VCMTP_DATA_LEN\<close> and \<^verbatim>\<open>AVAIL_BOP_LEN\<close> are
  constants of \<^verbatim>\<open>vcmtpBase.h\<close>, which is not among the sources. The
  specification uses 1448 for \<^verbatim>\<open>VCMTP_DATA_LEN\<close> and defines
  \<^verbatim>\<open>AVAIL_BOP_LEN\<close> as \<^verbatim>\<open>VCMTP_DATA_LEN\<close> minus the fixed BOP prefix
  (\<^verbatim>\<open>prodsize: u32\<close>, \<^verbatim>\<open>metasize: u16\<close>, six bytes); the documentation of
  \<^verbatim>\<open>sendProduct\<close> gives the resulting bound on \<^verbatim>\<open>metaSize\<close>, 1442 bytes.
\<close>

definition VCMTP_DATA_LEN :: nat where
  "VCMTP_DATA_LEN = 1448"

definition AVAIL_BOP_LEN :: nat where
  "AVAIL_BOP_LEN = 1442"

text \<open>
  The exceptions the sender throws. \<^verbatim>\<open>std_exception\<close> is an object whose
  dynamic type is the base class \<^verbatim>\<open>std::exception\<close> itself.
\<close>

datatype exn =
  invalid_argument string
| runtime_error string
| system_error string
| bad_alloc
| std_exception

text \<open>
  \<^verbatim>\<open>RetxMetadata\<close> (\<^verbatim>\<open>senderMetadata.h\<close>). The two pointers are addresses
  in the application's memory. The type \<open>'f\<close> stands for \<^verbatim>\<open>float\<close>; the times
  are clock readings.
\<close>

record 'f RetxMetadata =
  prodindex :: uint32_t
  prodLength :: uint32_t
  metaSize :: uint16_t
  metadata :: ptr
  mcastStartTime :: int
  mcastEndTime :: int
  retxTimeoutRatio :: 'f
  retxTimeoutPeriod :: 'f
  dataprod_p :: ptr
  unfinReceivers :: "sockfd set"


section \<open>senderMetadata: the retransmission table\<close>

text \<open>
  \<^verbatim>\<open>senderMetadata\<close> holds \<^verbatim>\<open>indexMetaMap\<close>, a
  \<^verbatim>\<open>std::map<uint32_t, RetxMetadata*>\<close>, behind a readers-writer lock.
\<close>

type_synonym 'f senderMetadata = "uint32_t \<rightharpoonup> 'f RetxMetadata"

text \<open>
  Modelled from the spec: the bodies of the four methods are in
  \<^verbatim>\<open>senderMetadata.cpp\<close>, which is not among the sources; only their
  declarations (\<^verbatim>\<open>senderMetadata.h\<close>) and their callers are. Section 4.4 of the
  specification: \<open>add(meta)\<close> inserts under the key \<open>meta.prodindex\<close>;
  \<open>get(prodindex)\<close> returns the entry or none; \<open>remove(prodindex)\<close> removes the
  entry unconditionally and returns true iff it was present;
  \<open>clear_unfinished(prodindex, receiver-id)\<close> removes the receiver from the entry's
  set, and if the set becomes empty removes the entry from the table and returns true,
  otherwise returns false; absent entries also return false. \<open>clear_unfinished\<close> and
  \<open>remove\<close> are mutually exclusive writers, so each is one atomic step on the map.
\<close>

definition senderMetadata_addRetxMetadata ::
  "'f RetxMetadata \<Rightarrow> 'f senderMetadata \<Rightarrow> 'f senderMetadata" where
  "senderMetadata_addRetxMetadata ptrMeta indexMetaMap =
     indexMetaMap(RetxMetadata.prodindex ptrMeta \<mapsto> ptrMeta)"

definition getMetadata :: "uint32_t \<Rightarrow> 'f senderMetadata \<Rightarrow> 'f RetxMetadata option" where
  "getMetadata pindex indexMetaMap = indexMetaMap pindex"

definition rmRetxMetadataNoLock :: "uint32_t \<Rightarrow> 'f senderMetadata \<Rightarrow> bool \<times> 'f senderMetadata" where
  "rmRetxMetadataNoLock pindex indexMetaMap =
     (case indexMetaMap pindex of
        None \<Rightarrow> (False, indexMetaMap)
      | Some meta \<Rightarrow> (True, indexMetaMap(pindex := None)))"

definition rmRetxMetadata :: "uint32_t \<Rightarrow> 'f senderMetadata \<Rightarrow> bool \<times> 'f senderMetadata" where
  "rmRetxMetadata pindex indexMetaMap = rmRetxMetadataNoLock pindex indexMetaMap"

definition clearUnfinishedSet ::
  "uint32_t \<Rightarrow> sockfd \<Rightarrow> 'f senderMetadata \<Rightarrow> bool \<times> 'f senderMetadata" where
  "clearUnfinishedSet pindex retxsockfd indexMetaMap =
     (case indexMetaMap pindex of
        None \<Rightarrow> (False, indexMetaMap)
      | Some meta \<Rightarrow>
          (let rest = unfinReceivers meta - {retxsockfd}
           in if rest = {}
              then rmRetxMetadataNoLock pindex
                     (indexMetaMap(pindex \<mapsto> meta\<lparr>unfinReceivers := rest\<rparr>))
              else (False, indexMetaMap(pindex \<mapsto> meta\<lparr>unfinReceivers := rest\<rparr>))))"


section \<open>RetxThreads: the list of retransmission threads\<close>

text \<open>
  \<^verbatim>\<open>RetxThreads\<close> keeps the handles of the live retransmission threads in
  \<^verbatim>\<open>threads\<close>, a \<^verbatim>\<open>std::list\<close>; every method holds the mutex for its whole
  body, so each method is one atomic step on the list. \<^verbatim>\<open>pthread_cancel\<close> is an
  effect outside the list: the model returns the handles it was called on, in order.
\<close>

definition RetxThreads_add :: "pthread_t \<Rightarrow> pthread_t list \<Rightarrow> pthread_t list" where
  "RetxThreads_add thread threads = thread # threads"

definition RetxThreads_remove :: "pthread_t \<Rightarrow> pthread_t list \<Rightarrow> pthread_t list" where
  "RetxThreads_remove thread threads = filter (\<lambda>other. \<not> (thread = other)) threads"

text \<open>
  \<^verbatim>\<open>shutdown\<close> walks the list and cancels each handle, then evaluates
  \<^verbatim>\<open>(void)threads.empty()\<close>. On a \<^verbatim>\<open>std::list\<close>, \<^verbatim>\<open>empty()\<close> is the
  query "is the list empty?"; its result is discarded and the list is left as it was
  (\<^verbatim>\<open>clear()\<close> is the call that removes the elements). The model returns the
  cancelled handles and the list after the call.
\<close>

definition RetxThreads_shutdown :: "pthread_t list \<Rightarrow> pthread_t list \<times> pthread_t list" where
  "RetxThreads_shutdown threads =
     (let cancelled = threads;
          ignored = (threads = [])
      in (cancelled, threads))"



section \<open>The sender\<close>

text \<open>A call of \<^verbatim>\<open>TcpSend::send\<close>: the socket, the header and the body handed over.\<close>

record tcp_msg =
  msg_sock :: sockfd
  msg_header :: VcmtpHeader_net
  msg_body :: "byte list"

text \<open>A datagram handed to \<^verbatim>\<open>UdpSend\<close>: the header and the bytes gathered after it.\<close>

record udp_msg =
  dgram_header :: VcmtpHeader_net
  dgram_body :: "byte list"

text \<open>
  The members of \<^verbatim>\<open>vcmtpSendv3\<close> together with what its collaborators hold and
  what they have been asked to do:
  \<^item> \<open>notifier\<close>: whether the \<^verbatim>\<open>SendAppNotifier\<close> pointer is non-null;
    \<open>notified\<close>: the arguments of the calls of \<^verbatim>\<open>notify_of_eop\<close>, oldest first;
  \<^item> \<open>sendMeta\<close>: the retransmission table;
  \<^item> \<open>tcp_sent\<close>: the calls of \<^verbatim>\<open>TcpSend::send\<close>, oldest first; \<open>tcp_rets\<close>: the
    values the next calls will return (0 once the list is used up);
    \<open>connSockList\<close>: the sockets of the connected receivers;
  \<^item> \<open>udp_sent\<close>: the datagrams sent, oldest first; \<open>udp_script\<close>: whether the
    next calls into \<^verbatim>\<open>UdpSend\<close> succeed (they do once the list is used up);
  \<^item> \<open>timerDelayQ\<close>: the pairs pushed into the delay queue, oldest first;
    \<open>timerDelayQ_disabled\<close>: whether \<^verbatim>\<open>disable()\<close> was called;
  \<^item> \<open>retxThreadList\<close>: the worker handles; \<open>cancelled\<close>: the threads
    \<^verbatim>\<open>pthread_cancel\<close> was called on; \<open>coor_cancelled\<close>: whether the coordinator
    was cancelled;
  \<^item> \<open>except\<close> and \<open>exceptIsSet\<close>: the error slot.
\<close>

record 'f vcmtpSendv3 =
  prodIndex :: uint32_t
  retxTimeoutRatio :: 'f
  notifier :: bool
  notified :: "uint32_t list"
  sendMeta :: "'f senderMetadata"
  tcp_sent :: "tcp_msg list"
  tcp_rets :: "int list"
  connSockList :: "sockfd list"
  udp_sent :: "udp_msg list"
  udp_script :: "bool list"
  timerDelayQ :: "(uint32_t \<times> 'f) list"
  timerDelayQ_disabled :: bool
  retxThreadList :: "pthread_t list"
  cancelled :: "pthread_t list"
  coor_cancelled :: bool
  except :: exn
  exceptIsSet :: bool

definition notify_of_eop :: "uint32_t \<Rightarrow> 'f vcmtpSendv3 \<Rightarrow> 'f vcmtpSendv3" where
  "notify_of_eop pindex s = s\<lparr>notified := notified s @ [pindex]\<rparr>"

text \<open>
  \<^verbatim>\<open>handleRetxEnd\<close>. \<open>retxMeta\<close> is the pointer the worker got from
  \<^verbatim>\<open>getMetadata\<close> before the call; the function only tests it against null.
\<close>

definition handleRetxEnd ::
  "VcmtpHeader \<Rightarrow> 'f RetxMetadata option \<Rightarrow> sockfd \<Rightarrow> 'f vcmtpSendv3 \<Rightarrow> 'f vcmtpSendv3" where
  "handleRetxEnd recvheader retxMeta sock s =
     (if retxMeta \<noteq> None then
        (case clearUnfinishedSet (VcmtpHeader.prodindex recvheader) sock (sendMeta s) of
           (removed, indexMetaMap) \<Rightarrow>
             (let s1 = s\<lparr>sendMeta := indexMetaMap\<rparr>
              in if removed then
                   (if notifier s1 then notify_of_eop (VcmtpHeader.prodindex recvheader) s1
                    else s1)
                 else s1))
      else s)"

text \<open>
  One iteration of the loop of \<^verbatim>\<open>timerThread\<close>. The body declares
  \<^verbatim>\<open>uint32_t prodindex;\<close> without an initialiser; inside the \<^verbatim>\<open>try\<close> block a
  second \<^verbatim>\<open>uint32_t prodindex = timerDelayQ.pop();\<close> is declared, which receives
  the popped index and goes out of scope at the end of the block. The calls of
  \<^verbatim>\<open>rmRetxMetadata\<close> and \<^verbatim>\<open>notify_of_eop\<close> after the block read the outer
  variable. \<open>popped\<close> is what \<^verbatim>\<open>pop()\<close> returned (\<open>None\<close>: it threw
  \<^verbatim>\<open>std::runtime_error\<close> because the queue was disabled, and the thread returns);
  \<open>uninit\<close> is the value found in the outer variable. The result says whether the
  loop goes on.
\<close>

definition timerThread_iter ::
  "uint32_t option \<Rightarrow> uint32_t \<Rightarrow> 'f vcmtpSendv3 \<Rightarrow> bool \<times> 'f vcmtpSendv3" where
  "timerThread_iter popped uninit s =
     (let outer_prodindex = uninit
      in case popped of
           None \<Rightarrow> (False, s)
         | Some inner_prodindex \<Rightarrow>
             (case rmRetxMetadata outer_prodindex (sendMeta s) of
                (isRemoved, indexMetaMap) \<Rightarrow>
                  (let s1 = s\<lparr>sendMeta := indexMetaMap\<rparr>
                   in (True, if notifier s1 \<and> isRemoved then notify_of_eop outer_prodindex s1
                             else s1))))"

text \<open>
  \<^verbatim>\<open>timerThread\<close>: the loop, run on the successive results of \<^verbatim>\<open>pop()\<close>,
  each with the value of the uninitialised local of that iteration. When the results
  are used up the thread is blocked in \<^verbatim>\<open>pop()\<close>.
\<close>

fun timerThread :: "(uint32_t option \<times> uint32_t) list \<Rightarrow> 'f vcmtpSendv3 \<Rightarrow> 'f vcmtpSendv3" where
  "timerThread [] s = s"
| "timerThread ((popped, uninit) # rest) s =
     (case timerThread_iter popped uninit s of
        (continue, s1) \<Rightarrow> if continue then timerThread rest s1 else s1)"

text \<open>
  The END-handling workers and the timer thread run concurrently. Each of them touches
  the table in one call that holds the write lock (\<^verbatim>\<open>clearUnfinishedSet\<close>,
  \<^verbatim>\<open>rmRetxMetadata\<close>), so an interleaving is a sequence of these steps:
  \<open>RetxEnd\<close> is a worker running \<^verbatim>\<open>handleRetxEnd\<close> with the pointer it looked
  up earlier, which may be stale by now (any value is allowed); \<open>TimerPop\<close> is one
  iteration of the timer loop whose \<^verbatim>\<open>pop()\<close> returned an index.
\<close>

datatype 'f step =
  RetxEnd VcmtpHeader "'f RetxMetadata option" sockfd
| TimerPop uint32_t uint32_t

fun run_step :: "'f step \<Rightarrow> 'f vcmtpSendv3 \<Rightarrow> 'f vcmtpSendv3" where
  "run_step (RetxEnd recvheader retxMeta sock) s = handleRetxEnd recvheader retxMeta sock s"
| "run_step (TimerPop popped uninit) s = snd (timerThread_iter (Some popped) uninit s)"

fun run_steps :: "'f step list \<Rightarrow> 'f vcmtpSendv3 \<Rightarrow> 'f vcmtpSendv3" where
  "run_steps [] s = s"
| "run_steps (e # es) s = run_steps es (run_step e s)"



section \<open>The retransmission worker\<close>

text \<open>
  Modelled from the spec: \<^verbatim>\<open>TcpSend::send\<close> is not among the sources
  (\<^verbatim>\<open>TcpSend.cpp\<close> there is an earlier version of the class, without it).
  Section 4.3 of the specification: \<open>send(id, header, body, body_len)\<close> writes the
  header and the optional body contiguously, or fails. The model records the call and
  returns the value the environment has scheduled for it; a negative value is a failure.
\<close>

definition TcpSend_send ::
  "sockfd \<Rightarrow> VcmtpHeader_net \<Rightarrow> byte list \<Rightarrow> 'f vcmtpSendv3 \<Rightarrow> int \<times> 'f vcmtpSendv3" where
  "TcpSend_send sock sendheader payload s =
     (let s1 = s\<lparr>tcp_sent := tcp_sent s @
                 [\<lparr>msg_sock = sock, msg_header = sendheader, msg_body = payload\<rparr>]\<rparr>
      in case tcp_rets s1 of
           [] \<Rightarrow> (0, s1)
         | retval # rest \<Rightarrow> (retval, s1\<lparr>tcp_rets := rest\<rparr>))"

text \<open>\<^verbatim>\<open>rejRetxReq\<close>: one header-only message; the result of the send is not looked at.\<close>

definition rejRetxReq :: "vcmtp_flags \<Rightarrow> uint32_t \<Rightarrow> sockfd \<Rightarrow> 'f vcmtpSendv3 \<Rightarrow> 'f vcmtpSendv3" where
  "rejRetxReq fl pindex sock s =
     (let sendheader = \<lparr>net_prodindex = htonl pindex,
                        net_seqnum = [0, 0, 0, 0],
                        net_payloadlen = [0, 0],
                        net_flags = htons (VCMTP_RETX_REJ fl)\<rparr>
      in snd (TcpSend_send sock sendheader [] s))"

text \<open>
  The loop of \<^verbatim>\<open>retransmit\<close>:
  \<^verbatim>\<open>for (uint32_t nbytes = out - start; 0 < nbytes; nbytes -= payLen)\<close>.
  The body truncates \<^verbatim>\<open>payLen\<close> to \<^verbatim>\<open>nbytes\<close>, fills \<^verbatim>\<open>seqnum\<close> and
  \<^verbatim>\<open>payloadlen\<close> and sends \<^verbatim>\<open>payLen\<close> bytes found at
  \<^verbatim>\<open>dataprod_p + start\<close>; no statement of the loop assigns to \<^verbatim>\<open>start\<close>.
  A negative result of the send throws. The result is \<open>None\<close> when the loop never
  ends: \<^verbatim>\<open>payLen\<close> is 0, so \<^verbatim>\<open>nbytes\<close> stays as it is, and every send still to
  come succeeds.
\<close>

function retransmit_loop ::
  "vcmtp_flags \<Rightarrow> store \<Rightarrow> VcmtpHeader \<Rightarrow> 'f RetxMetadata \<Rightarrow> sockfd \<Rightarrow> uint32_t \<Rightarrow>
   uint32_t \<Rightarrow> uint16_t \<Rightarrow> 'f vcmtpSendv3 \<Rightarrow> (exn option \<times> 'f vcmtpSendv3) option" where
  "retransmit_loop fl mem recvheader retxMeta sock start nbytes payLen s =
     (if 0 < nbytes then
        (let payLen1 = (if ucast payLen > nbytes then ucast nbytes else payLen);
             sendheader = \<lparr>net_prodindex = htonl (VcmtpHeader.prodindex recvheader),
                           net_seqnum = htonl start,
                           net_payloadlen = htons payLen1,
                           net_flags = htons (VCMTP_RETX_DATA fl)\<rparr>;
             sent = TcpSend_send sock sendheader
                      (read_bytes mem (dataprod_p retxMeta + unat start) (unat payLen1)) s
         in if fst sent < 0 then
              Some (Some (runtime_error ''vcmtpSendv3::retransmit() TcpSend::send() error''),
                    snd sent)
            else if payLen1 = 0 \<and> tcp_rets (snd sent) = [] then None
            else retransmit_loop fl mem recvheader retxMeta sock start
                   (nbytes - ucast payLen1) payLen1 (snd sent))
      else Some (None, s))"
  by pat_completeness auto

text \<open>The loop ends: \<^verbatim>\<open>nbytes\<close> never grows, and a step that leaves it as it is
  uses up one scheduled result of \<^verbatim>\<open>TcpSend::send\<close>.\<close>

lemma unat_ucast_16_32: "unat (ucast (q::16 word) :: 32 word) = unat q"
proof -
  have "unat q < 2 ^ 16" using unsigned_less[of q] by simp
  then have "unat q < 2 ^ 32" by simp
  then show ?thesis by (simp add: unsigned_ucast_eq take_bit_nat_eq_self)
qed

lemma ucast_32_16_32: "(n::32 word) < ucast (q::16 word) \<Longrightarrow> ucast (ucast n :: 16 word) = n"
proof -
  assume a: "n < ucast q"
  have "unat q < 2 ^ 16" using unsigned_less[of q] by simp
  with a have b: "unat n < 2 ^ 16" by (simp add: word_less_nat_alt unat_ucast_16_32)
  then have "unat n < 2 ^ 32" by simp
  with b show ?thesis
    by (simp add: word_unat_eq_iff unsigned_ucast_eq unsigned_take_bit_eq take_bit_nat_eq_self)
qed

lemma retransmit_loop_decreases:
  "0 < (nbytes::32 word) \<Longrightarrow>
   payLen1 = (if ucast (payLen::16 word) > nbytes then ucast nbytes else payLen) \<Longrightarrow>
   unat (nbytes - ucast payLen1) \<le> unat nbytes \<and>
   (payLen1 \<noteq> 0 \<longrightarrow> unat (nbytes - ucast payLen1) < unat nbytes)"
proof (cases "ucast payLen > nbytes")
  case True
  assume "0 < nbytes" and p: "payLen1 = (if ucast payLen > nbytes then ucast nbytes else payLen)"
  with True have "(ucast payLen1 :: 32 word) = nbytes" by (simp add: ucast_32_16_32)
  with \<open>0 < nbytes\<close> show ?thesis by (simp add: word_less_nat_alt)
next
  case False
  assume n: "0 < nbytes" and p: "payLen1 = (if ucast payLen > nbytes then ucast nbytes else payLen)"
  with False have le: "(ucast payLen1 :: 32 word) \<le> nbytes" by simp
  then have "unat (nbytes - ucast payLen1) = unat nbytes - unat payLen1"
    by (simp add: unat_sub unat_ucast_16_32)
  moreover have "0 < unat nbytes" using n by (simp add: word_less_nat_alt)
  moreover have "payLen1 \<noteq> 0 \<longrightarrow> 0 < unat payLen1" by (simp add: unat_gt_0)
  ultimately show ?thesis by auto
qed

termination retransmit_loop
proof (relation "measures [\<lambda>(fl, mem, h, m, sock, start, nbytes, payLen, s). unat nbytes,
                            \<lambda>(fl, mem, h, m, sock, start, nbytes, payLen, s). length (tcp_rets s)]",
       goal_cases)
  case 1 show ?case by simp
next
  case (2 fl mem recvheader retxMeta sock start nbytes payLen s payLen1 sendheader sent)
  from 2(1,2) have d: "unat (nbytes - ucast payLen1) \<le> unat nbytes \<and>
      (payLen1 \<noteq> 0 \<longrightarrow> unat (nbytes - ucast payLen1) < unat nbytes)"
    by (rule retransmit_loop_decreases)
  have "payLen1 = 0 \<longrightarrow> length (tcp_rets (snd sent)) < length (tcp_rets s)"
    using 2(4,6) by (auto simp: TcpSend_send_def Let_def split: list.splits)
  with d show ?case by auto
qed

declare retransmit_loop.simps [simp del]

text \<open>
  \<^verbatim>\<open>retransmit\<close>. \<^verbatim>\<open>MIN(a,b)\<close> is \<^verbatim>\<open>((a) <= (b) ? (a) : (b))\<close>; the
  sum \<^verbatim>\<open>start + recvheader->payloadlen\<close> and the alignment are computed in
  \<^verbatim>\<open>uint32_t\<close>; \<^verbatim>\<open>payLen\<close> is a \<^verbatim>\<open>uint16_t\<close> initialised with
  \<^verbatim>\<open>VCMTP_DATA_LEN\<close>.
\<close>

definition retransmit ::
  "vcmtp_flags \<Rightarrow> store \<Rightarrow> VcmtpHeader \<Rightarrow> 'f RetxMetadata \<Rightarrow> sockfd \<Rightarrow> 'f vcmtpSendv3 \<Rightarrow>
   (exn option \<times> 'f vcmtpSendv3) option" where
  "retransmit fl mem recvheader retxMeta sock s =
     (if 0 < payloadlen recvheader then
        (let start0 = seqnum recvheader;
             sum = start0 + ucast (payloadlen recvheader);
             out = (if prodLength retxMeta \<le> sum then prodLength retxMeta else sum);
             start = (start0 div of_nat VCMTP_DATA_LEN) * of_nat VCMTP_DATA_LEN;
             payLen = of_nat VCMTP_DATA_LEN
         in retransmit_loop fl mem recvheader retxMeta sock start (out - start) payLen s)
      else Some (None, s))"

text \<open>
  \<^verbatim>\<open>retransBOP\<close>. \<^verbatim>\<open>BOPMsg\<close> is declared in \<^verbatim>\<open>vcmtpBase.h\<close> (not among
  the sources); the specification gives its layout: \<^verbatim>\<open>prodsize: u32\<close>,
  \<^verbatim>\<open>metasize: u16\<close>, then the metadata bytes. The function fills the two numbers,
  copies \<^verbatim>\<open>metaSize\<close> bytes from the address \<^verbatim>\<open>retxMeta->metadata\<close> into the
  message, as that memory is when the function runs, and sends the first
  \<^verbatim>\<open>payloadlen\<close> bytes of the message.
\<close>

definition retransBOP ::
  "vcmtp_flags \<Rightarrow> store \<Rightarrow> VcmtpHeader \<Rightarrow> 'f RetxMetadata \<Rightarrow> sockfd \<Rightarrow> 'f vcmtpSendv3 \<Rightarrow>
   exn option \<times> 'f vcmtpSendv3" where
  "retransBOP fl mem recvheader retxMeta sock s =
     (let plen = (of_nat (unat (metaSize retxMeta) + (VCMTP_DATA_LEN - AVAIL_BOP_LEN)) :: uint16_t);
          sendheader = \<lparr>net_prodindex = htonl (VcmtpHeader.prodindex recvheader),
                        net_seqnum = [0, 0, 0, 0],
                        net_payloadlen = htons plen,
                        net_flags = htons (VCMTP_RETX_BOP fl)\<rparr>;
          bopMsg = htonl (prodLength retxMeta) @ htons (metaSize retxMeta) @
                   read_bytes mem (metadata retxMeta) (unat (metaSize retxMeta));
          sent = TcpSend_send sock sendheader (take (unat plen) bopMsg) s
      in if fst sent < 0 then
           (Some (runtime_error ''vcmtpSendv3::retransBOP() TcpSend::send() error''), snd sent)
         else (None, snd sent))"

definition retransEOP ::
  "vcmtp_flags \<Rightarrow> VcmtpHeader \<Rightarrow> sockfd \<Rightarrow> 'f vcmtpSendv3 \<Rightarrow> exn option \<times> 'f vcmtpSendv3" where
  "retransEOP fl recvheader sock s =
     (let sendheader = \<lparr>net_prodindex = htonl (VcmtpHeader.prodindex recvheader),
                        net_seqnum = [0, 0, 0, 0],
                        net_payloadlen = [0, 0],
                        net_flags = htons (VCMTP_RETX_EOP fl)\<rparr>;
          sent = TcpSend_send sock sendheader [] s
      in if fst sent < 0 then
           (Some (runtime_error ''vcmtpSendv3::retransEOP() TcpSend::send() error''), snd sent)
         else (None, snd sent))"

text \<open>The three request handlers: serve the request when the entry was found, reject it
  otherwise.\<close>

definition handleRetxReq ::
  "vcmtp_flags \<Rightarrow> store \<Rightarrow> VcmtpHeader \<Rightarrow> 'f RetxMetadata option \<Rightarrow> sockfd \<Rightarrow> 'f vcmtpSendv3 \<Rightarrow>
   (exn option \<times> 'f vcmtpSendv3) option" where
  "handleRetxReq fl mem recvheader retxMeta sock s =
     (case retxMeta of
        Some meta \<Rightarrow> retransmit fl mem recvheader meta sock s
      | None \<Rightarrow> Some (None, rejRetxReq fl (VcmtpHeader.prodindex recvheader) sock s))"

definition handleBopReq ::
  "vcmtp_flags \<Rightarrow> store \<Rightarrow> VcmtpHeader \<Rightarrow> 'f RetxMetadata option \<Rightarrow> sockfd \<Rightarrow> 'f vcmtpSendv3 \<Rightarrow>
   exn option \<times> 'f vcmtpSendv3" where
  "handleBopReq fl mem recvheader retxMeta sock s =
     (case retxMeta of
        Some meta \<Rightarrow> retransBOP fl mem recvheader meta sock s
      | None \<Rightarrow> (None, rejRetxReq fl (VcmtpHeader.prodindex recvheader) sock s))"

definition handleEopReq ::
  "vcmtp_flags \<Rightarrow> VcmtpHeader \<Rightarrow> 'f RetxMetadata option \<Rightarrow> sockfd \<Rightarrow> 'f vcmtpSendv3 \<Rightarrow>
   exn option \<times> 'f vcmtpSendv3" where
  "handleEopReq fl recvheader retxMeta sock s =
     (case retxMeta of
        Some meta \<Rightarrow> retransEOP fl recvheader sock s
      | None \<Rightarrow> (None, rejRetxReq fl (VcmtpHeader.prodindex recvheader) sock s))"

text \<open>
  One iteration of the loop of \<^verbatim>\<open>RunRetxThread\<close>. \<open>parsed\<close> is the header
  \<^verbatim>\<open>TcpSend::parseHeader\<close> delivered (\<open>None\<close>: it returned a negative value, and
  the worker throws). The entry is looked up first; then the flags are compared with
  the four request kinds in the order of the source, and a header of any other kind is
  skipped. The result is \<open>None\<close> when the iteration never ends.
\<close>

definition RunRetxThread_iter ::
  "vcmtp_flags \<Rightarrow> store \<Rightarrow> VcmtpHeader option \<Rightarrow> sockfd \<Rightarrow> 'f vcmtpSendv3 \<Rightarrow>
   (exn option \<times> 'f vcmtpSendv3) option" where
  "RunRetxThread_iter fl mem parsed retxsockfd s =
     (case parsed of
        None \<Rightarrow> Some (Some (runtime_error ''vcmtpSendv3::RunRetxThread() receive header error''), s)
      | Some recvheader \<Rightarrow>
          (let retxMeta = getMetadata (VcmtpHeader.prodindex recvheader) (sendMeta s)
           in if flags recvheader = VCMTP_RETX_REQ fl then
                handleRetxReq fl mem recvheader retxMeta retxsockfd s
              else if flags recvheader = VCMTP_RETX_END fl then
                Some (None, handleRetxEnd recvheader retxMeta retxsockfd s)
              else if flags recvheader = VCMTP_BOP_REQ fl then
                Some (handleBopReq fl mem recvheader retxMeta retxsockfd s)
              else if flags recvheader = VCMTP_EOP_REQ fl then
                Some (handleEopReq fl recvheader retxMeta retxsockfd s)
              else Some (None, s)))"

text \<open>
  \<^verbatim>\<open>RunRetxThread\<close>: the loop, run on the successive results of
  \<^verbatim>\<open>parseHeader\<close>; it is left by an exception only. When the results are used up
  the worker is blocked in \<^verbatim>\<open>parseHeader\<close>.
\<close>

fun RunRetxThread ::
  "vcmtp_flags \<Rightarrow> store \<Rightarrow> VcmtpHeader option list \<Rightarrow> sockfd \<Rightarrow> 'f vcmtpSendv3 \<Rightarrow>
   (exn option \<times> 'f vcmtpSendv3) option" where
  "RunRetxThread fl mem [] retxsockfd s = Some (None, s)"
| "RunRetxThread fl mem (parsed # rest) retxsockfd s =
     (case RunRetxThread_iter fl mem parsed retxsockfd s of
        None \<Rightarrow> None
      | Some (Some e, s1) \<Rightarrow> Some (Some e, s1)
      | Some (None, s1) \<Rightarrow> RunRetxThread fl mem rest retxsockfd s1)"


section \<open>Multicasting a product\<close>

text \<open>
  The arithmetic on \<^verbatim>\<open>float\<close> and \<^verbatim>\<open>double\<close> is a parameter:
  \<open>float_lit n\<close> is the \<^verbatim>\<open>float\<close> a literal of the integral value \<open>n\<close>
  denotes, and \<open>period_mul d r\<close> is what \<^verbatim>\<open>setTimerParameters\<close> stores in
  \<^verbatim>\<open>retxTimeoutPeriod\<close> for a multicast that took \<open>d\<close> clock ticks and a
  ratio \<open>r\<close>: the duration in seconds as a \<^verbatim>\<open>double\<close>, times the ratio,
  converted to \<^verbatim>\<open>float\<close>.
\<close>

record 'f float_ops =
  float_lit :: "int \<Rightarrow> 'f"
  period_mul :: "int \<Rightarrow> 'f \<Rightarrow> 'f"

text \<open>
  What the environment decides during one call of \<^verbatim>\<open>sendProduct\<close>: whether
  \<^verbatim>\<open>new RetxMetadata()\<close> throws, the two readings of the clock, and whether
  \<^verbatim>\<open>timerDelayQ.push\<close> throws.
\<close>

record send_env =
  new_throws :: bool
  now_start :: int
  now_end :: int
  push_throws :: bool

text \<open>The three constructors of \<^verbatim>\<open>vcmtpSendv3\<close>. Nothing has been sent and
  every call into the sockets succeeds until a test schedules otherwise.\<close>

definition vcmtpSendv3_new3 ::
  "uint32_t \<Rightarrow> 'f \<Rightarrow> bool \<Rightarrow> 'f vcmtpSendv3" where
  "vcmtpSendv3_new3 initProdIndex timeoutRatio notifier_given =
     \<lparr>prodIndex = initProdIndex, retxTimeoutRatio = timeoutRatio,
      notifier = notifier_given, notified = [], sendMeta = Map.empty,
      tcp_sent = [], tcp_rets = [], connSockList = [],
      udp_sent = [], udp_script = [],
      timerDelayQ = [], timerDelayQ_disabled = False,
      retxThreadList = [], cancelled = [], coor_cancelled = False,
      except = std_exception, exceptIsSet = False\<rparr>"

definition vcmtpSendv3_new2 :: "'f float_ops \<Rightarrow> uint32_t \<Rightarrow> bool \<Rightarrow> 'f vcmtpSendv3" where
  "vcmtpSendv3_new2 ops initProdIndex notifier_given =
     vcmtpSendv3_new3 initProdIndex (float_lit ops 500000) notifier_given"

definition vcmtpSendv3_new1 :: "'f float_ops \<Rightarrow> 'f vcmtpSendv3" where
  "vcmtpSendv3_new1 ops = vcmtpSendv3_new3 0 (float_lit ops 500000) False"

text \<open>The constructor \<^verbatim>\<open>RetxMetadata()\<close>.\<close>

definition RetxMetadata_new :: "'f float_ops \<Rightarrow> 'f RetxMetadata" where
  "RetxMetadata_new ops =
     \<lparr>RetxMetadata.prodindex = 0, prodLength = 0, metaSize = 0, metadata = NULL,
      mcastStartTime = 0, mcastEndTime = 0,
      RetxMetadata.retxTimeoutRatio = float_lit ops 20,
      retxTimeoutPeriod = float_lit ops 99999999999,
      dataprod_p = NULL, unfinReceivers = {}\<rparr>"

text \<open>
  The table holds a pointer to the entry, and \<^verbatim>\<open>sendProduct\<close> keeps writing to
  the entry through its own pointer after the insertion. The model keeps the caller's
  copy of the object and applies every such write to the table's copy as well, as long
  as the table still holds the entry.
\<close>

definition write_entry ::
  "uint32_t \<Rightarrow> ('f RetxMetadata \<Rightarrow> 'f RetxMetadata) \<Rightarrow> 'f senderMetadata \<Rightarrow> 'f senderMetadata" where
  "write_entry pindex f indexMetaMap =
     (case indexMetaMap pindex of
        None \<Rightarrow> indexMetaMap
      | Some meta \<Rightarrow> indexMetaMap(pindex \<mapsto> f meta))"

text \<open>
  \<^verbatim>\<open>vcmtpSendv3::addRetxMetadata\<close>. \<^verbatim>\<open>new\<close> either yields an object or
  throws, so the test of its result against null never fires. The sizes are narrowed
  to the types of the fields; the two pointers are stored as they are.
\<close>

definition addRetxMetadata ::
  "'f float_ops \<Rightarrow> send_env \<Rightarrow> ptr \<Rightarrow> size_t \<Rightarrow> ptr \<Rightarrow> size_t \<Rightarrow> 'f vcmtpSendv3 \<Rightarrow>
   (exn + 'f RetxMetadata) \<times> 'f vcmtpSendv3" where
  "addRetxMetadata ops env data_p dataSize meta_p meta_size s =
     (if new_throws env then (Inl bad_alloc, s)
      else
        (let senderProdMeta = (RetxMetadata_new ops)
               \<lparr>RetxMetadata.prodindex := prodIndex s,
                prodLength := ucast dataSize,
                metaSize := ucast meta_size,
                metadata := meta_p,
                dataprod_p := data_p,
                RetxMetadata.retxTimeoutRatio := retxTimeoutRatio s,
                unfinReceivers := set (connSockList s)\<rparr>;
             s1 = s\<lparr>sendMeta := senderMetadata_addRetxMetadata senderProdMeta (sendMeta s)\<rparr>;
             started = (\<lambda>meta. meta\<lparr>mcastStartTime := now_start env\<rparr>)
         in (Inr (started senderProdMeta),
             s1\<lparr>sendMeta := write_entry (prodIndex s) started (sendMeta s1)\<rparr>)))"

text \<open>
  Modelled from the spec: \<^verbatim>\<open>UdpSend.cpp\<close> is not among the sources, only the
  declarations in \<^verbatim>\<open>UdpSend.h\<close>. Section 4.2 of the specification: a send emits
  exactly one datagram or fails, and a failure reaches the caller. The callers document
  how: \<^verbatim>\<open>SendTo\<close> throws \<^verbatim>\<open>std::system_error\<close>, and \<^verbatim>\<open>SendData\<close>
  returns a negative value. The model sends the datagram when the environment lets the
  call succeed and reports whether it did.
\<close>

definition UdpSend_send :: "udp_msg \<Rightarrow> 'f vcmtpSendv3 \<Rightarrow> bool \<times> 'f vcmtpSendv3" where
  "UdpSend_send dgram s =
     (case udp_script s of
        [] \<Rightarrow> (True, s\<lparr>udp_sent := udp_sent s @ [dgram]\<rparr>)
      | ok # rest \<Rightarrow>
          (if ok then (True, s\<lparr>udp_sent := udp_sent s @ [dgram], udp_script := rest\<rparr>)
           else (False, s\<lparr>udp_script := rest\<rparr>)))"

text \<open>\<^verbatim>\<open>SendBOPMessage\<close>: header, the fixed part of the BOP message and the metadata
  bytes, gathered into one datagram.\<close>

definition SendBOPMessage ::
  "vcmtp_flags \<Rightarrow> store \<Rightarrow> uint32_t \<Rightarrow> ptr \<Rightarrow> uint32_t \<Rightarrow> 'f vcmtpSendv3 \<Rightarrow>
   exn option \<times> 'f vcmtpSendv3" where
  "SendBOPMessage fl mem prodSize meta_p meta_size s =
     (let header = \<lparr>net_prodindex = htonl (prodIndex s),
                    net_seqnum = [0, 0, 0, 0],
                    net_payloadlen = htons (ucast (meta_size + of_nat (VCMTP_DATA_LEN - AVAIL_BOP_LEN))),
                    net_flags = htons (VCMTP_BOP fl)\<rparr>;
          bopMsg = htonl prodSize @ htons (ucast meta_size);
          sent = UdpSend_send \<lparr>dgram_header = header,
                   dgram_body = bopMsg @ read_bytes mem meta_p (unat meta_size)\<rparr> s
      in if fst sent then (None, snd sent)
         else (Some (system_error ''UdpSend::SendTo()''), snd sent))"

definition sendEOPMessage :: "vcmtp_flags \<Rightarrow> 'f vcmtpSendv3 \<Rightarrow> exn option \<times> 'f vcmtpSendv3" where
  "sendEOPMessage fl s =
     (let header = \<lparr>net_prodindex = htonl (prodIndex s),
                    net_seqnum = [0, 0, 0, 0],
                    net_payloadlen = [0, 0],
                    net_flags = htons (VCMTP_EOP fl)\<rparr>;
          sent = UdpSend_send \<lparr>dgram_header = header, dgram_body = []\<rparr> s
      in if fst sent then (None, snd sent)
         else (Some (system_error ''UdpSend::SendTo()''), snd sent))"

text \<open>
  The loop of \<^verbatim>\<open>sendData\<close>: while there is data left, send a block of at most
  \<^verbatim>\<open>VCMTP_DATA_LEN\<close> bytes and advance \<^verbatim>\<open>dataSize\<close>, \<^verbatim>\<open>data\<close> and
  \<^verbatim>\<open>seqNum\<close> by its length. \<open>header_prodindex\<close> is the field
  \<^verbatim>\<open>header.prodindex\<close>, filled before the loop.
\<close>

function sendData_loop ::
  "vcmtp_flags \<Rightarrow> store \<Rightarrow> byte list \<Rightarrow> ptr \<Rightarrow> size_t \<Rightarrow> uint32_t \<Rightarrow> 'f vcmtpSendv3 \<Rightarrow>
   exn option \<times> 'f vcmtpSendv3" where
  "sendData_loop fl mem header_prodindex data_p dataSize seqNum s =
     (if dataSize > 0 then
        (let plen = (if dataSize < of_nat VCMTP_DATA_LEN then ucast dataSize
                     else of_nat VCMTP_DATA_LEN :: uint32_t);
             header = \<lparr>net_prodindex = header_prodindex,
                       net_seqnum = htonl seqNum,
                       net_payloadlen = htons (ucast plen),
                       net_flags = htons (VCMTP_MEM_DATA fl)\<rparr>;
             sent = UdpSend_send \<lparr>dgram_header = header,
                      dgram_body = read_bytes mem data_p (unat plen)\<rparr> s
         in if \<not> fst sent then
              (Some (runtime_error ''vcmtpSendv3::sendProduct::SendData() error''), snd sent)
            else sendData_loop fl mem header_prodindex (data_p + unat plen)
                   (dataSize - ucast plen) (seqNum + plen) (snd sent))
      else (None, s))"
  by pat_completeness auto

lemma sendData_loop_decreases:
  "0 < (dataSize::64 word) \<Longrightarrow>
   plen = (if dataSize < of_nat VCMTP_DATA_LEN then ucast dataSize
           else of_nat VCMTP_DATA_LEN :: 32 word) \<Longrightarrow>
   unat (dataSize - ucast plen) < unat dataSize"
proof (cases "dataSize < of_nat VCMTP_DATA_LEN")
  case True
  assume n: "0 < dataSize"
    and p: "plen = (if dataSize < of_nat VCMTP_DATA_LEN then ucast dataSize
                    else of_nat VCMTP_DATA_LEN :: 32 word)"
  from True have "unat dataSize < 1448" by (simp add: VCMTP_DATA_LEN_def word_less_nat_alt)
  then have "unat dataSize < 2 ^ 32" by simp
  then have "(ucast (ucast dataSize :: 32 word) :: 64 word) = dataSize"
    by (simp add: word_unat_eq_iff unsigned_ucast_eq unsigned_take_bit_eq take_bit_nat_eq_self)
  with True p n show ?thesis by (simp add: word_less_nat_alt)
next
  case False
  assume n: "0 < dataSize"
    and p: "plen = (if dataSize < of_nat VCMTP_DATA_LEN then ucast dataSize
                    else of_nat VCMTP_DATA_LEN :: 32 word)"
  from False p have e: "(ucast plen :: 64 word) = 1448" by (simp add: VCMTP_DATA_LEN_def)
  from False have "(1448 :: 64 word) \<le> dataSize" by (simp add: VCMTP_DATA_LEN_def)
  then have "unat (dataSize - 1448) = unat dataSize - 1448" by (simp add: unat_sub)
  moreover have "0 < unat dataSize" using n by (simp add: word_less_nat_alt)
  ultimately show ?thesis using e by simp
qed

termination sendData_loop
proof (relation "measure (\<lambda>(fl, mem, hp, data_p, dataSize, seqNum, s). unat dataSize)", goal_cases)
  case 1 show ?case by simp
next
  case (2 fl mem hp data_p dataSize seqNum s plen header sent)
  from 2(1,2) have "unat (dataSize - ucast plen) < unat dataSize"
    by (rule sendData_loop_decreases)
  then show ?case by simp
qed

declare sendData_loop.simps [simp del]

definition sendData ::
  "vcmtp_flags \<Rightarrow> store \<Rightarrow> ptr \<Rightarrow> size_t \<Rightarrow> 'f vcmtpSendv3 \<Rightarrow> exn option \<times> 'f vcmtpSendv3" where
  "sendData fl mem data_p dataSize s =
     sendData_loop fl mem (htonl (prodIndex s)) data_p dataSize 0 s"

text \<open>
  \<^verbatim>\<open>setTimerParameters\<close> writes the end time and the timeout period into the
  entry. \<open>senderProdMeta\<close> is the caller's view of the entry; the result is the entry
  after the two writes.
\<close>

definition setTimerParameters ::
  "'f float_ops \<Rightarrow> send_env \<Rightarrow> 'f RetxMetadata \<Rightarrow> 'f vcmtpSendv3 \<Rightarrow>
   'f RetxMetadata \<times> 'f vcmtpSendv3" where
  "setTimerParameters ops env senderProdMeta s =
     (let timed = (\<lambda>meta. meta\<lparr>mcastEndTime := now_end env,
                     retxTimeoutPeriod :=
                       period_mul ops (now_end env - mcastStartTime meta)
                         (RetxMetadata.retxTimeoutRatio meta)\<rparr>)
      in (timed senderProdMeta,
          s\<lparr>sendMeta := write_entry (RetxMetadata.prodindex senderProdMeta) timed (sendMeta s)\<rparr>))"

text \<open>
  \<^verbatim>\<open>Stop\<close>: disable the delay queue, cancel the coordinator, shut the worker list
  down, join the two threads, and then throw the error slot if it is set.
\<close>

definition Stop :: "'f vcmtpSendv3 \<Rightarrow> exn option \<times> 'f vcmtpSendv3" where
  "Stop s =
     (let s1 = s\<lparr>timerDelayQ_disabled := True\<rparr>;
          s2 = s1\<lparr>coor_cancelled := True\<rparr>;
          down = RetxThreads_shutdown (retxThreadList s2);
          s3 = s2\<lparr>cancelled := cancelled s2 @ fst down, retxThreadList := snd down\<rparr>
      in if exceptIsSet s3 then (Some (except s3), s3) else (None, s3))"

text \<open>
  The error slot \<^verbatim>\<open>except\<close> is a member of \<^verbatim>\<open>vcmtpSendv3\<close>. Its
  declaration is in \<^verbatim>\<open>vcmtpSendv3.h\<close>, which is not among the sources; the
  constructors default-construct it (\<^verbatim>\<open>except()\<close>) and \<^verbatim>\<open>taskExit\<close> assigns
  a \<^verbatim>\<open>const std::exception&\<close> to it, so it is taken to be an object of the class
  \<^verbatim>\<open>std::exception\<close> itself. Copying an exception through a reference to the
  base class, in \<^verbatim>\<open>except = e\<close> as in \<^verbatim>\<open>throw e\<close> with
  \<^verbatim>\<open>std::exception& e\<close>, makes an object of the static type of the reference:
  what is copied from a \<^verbatim>\<open>std::invalid_argument\<close> or a
  \<^verbatim>\<open>std::runtime_error\<close> is a plain \<^verbatim>\<open>std::exception\<close>.
\<close>

definition copy_as_std_exception :: "exn \<Rightarrow> exn" where
  "copy_as_std_exception e = std_exception"

text \<open>\<^verbatim>\<open>taskExit\<close>: fill the error slot if it is empty, then \<^verbatim>\<open>Stop()\<close>.\<close>

definition taskExit :: "exn \<Rightarrow> 'f vcmtpSendv3 \<Rightarrow> exn option \<times> 'f vcmtpSendv3" where
  "taskExit e s =
     Stop (if \<not> exceptIsSet s
           then s\<lparr>except := copy_as_std_exception e, exceptIsSet := True\<rparr>
           else s)"

text \<open>
  The four checks at the head of \<^verbatim>\<open>sendProduct\<close>, in the order of the source.
  \<^verbatim>\<open>dataSize\<close> is a \<^verbatim>\<open>size_t\<close> and \<^verbatim>\<open>metaSize\<close> an
  \<^verbatim>\<open>unsigned\<close>.
\<close>

definition sendProduct_validate :: "ptr \<Rightarrow> size_t \<Rightarrow> ptr \<Rightarrow> uint32_t \<Rightarrow> exn option" where
  "sendProduct_validate data_p dataSize meta_p meta_size =
     (if data_p = NULL then
        Some (invalid_argument ''vcmtpSendv3::sendProduct() data pointer is NULL'')
      else if dataSize > 0xFFFFFFFF then
        Some (invalid_argument ''vcmtpSendv3::sendProduct() dataSize out of range'')
      else if meta_p \<noteq> NULL then
        (if of_nat AVAIL_BOP_LEN < meta_size then
           Some (invalid_argument ''vcmtpSendv3::SendBOPMessage(): metaSize too large'')
         else None)
      else
        (if meta_size \<noteq> 0 then
           Some (invalid_argument ''vcmtpSendv3::SendBOPMessage(): Non-zero metaSize'')
         else None))"

text \<open>The body of the \<^verbatim>\<open>try\<close> block of \<^verbatim>\<open>sendProduct\<close>: the exception it
  leaves with, if any, and the state at that point.\<close>

definition sendProduct_try ::
  "vcmtp_flags \<Rightarrow> 'f float_ops \<Rightarrow> store \<Rightarrow> send_env \<Rightarrow> ptr \<Rightarrow> size_t \<Rightarrow> ptr \<Rightarrow> uint32_t \<Rightarrow>
   'f vcmtpSendv3 \<Rightarrow> exn option \<times> 'f vcmtpSendv3" where
  "sendProduct_try fl ops mem env data_p dataSize meta_p meta_size s =
     (case sendProduct_validate data_p dataSize meta_p meta_size of
        Some e \<Rightarrow> (Some e, s)
      | None \<Rightarrow>
     (case addRetxMetadata ops env data_p dataSize meta_p (ucast meta_size) s of
        (Inl e, s1) \<Rightarrow> (Some e, s1)
      | (Inr senderProdMeta, s1) \<Rightarrow>
     (case SendBOPMessage fl mem (ucast dataSize) meta_p meta_size s1 of
        (Some e, s2) \<Rightarrow> (Some e, s2)
      | (None, s2) \<Rightarrow>
     (case sendData fl mem data_p dataSize s2 of
        (Some e, s3) \<Rightarrow> (Some e, s3)
      | (None, s3) \<Rightarrow>
     (case sendEOPMessage fl s3 of
        (Some e, s4) \<Rightarrow> (Some e, s4)
      | (None, s4) \<Rightarrow>
     (case setTimerParameters ops env senderProdMeta s4 of
        (timedMeta, s5) \<Rightarrow>
          if push_throws env then (Some (runtime_error ''ProdIndexDelayQueue::push()''), s5)
          else (None, s5\<lparr>timerDelayQ := timerDelayQ s5 @
                             [(prodIndex s5, retxTimeoutPeriod timedMeta)]\<rparr>)))))))"

text \<open>
  \<^verbatim>\<open>sendProduct\<close>. An exception of the \<^verbatim>\<open>try\<close> block is caught as
  \<^verbatim>\<open>std::exception& e\<close>; the handler calls \<^verbatim>\<open>taskExit(e)\<close> and, should that
  return, executes \<^verbatim>\<open>throw e\<close>. Without an exception the function returns
  \<^verbatim>\<open>prodIndex++\<close>. The result is the exception that leaves the call (\<open>Inl\<close>) or the
  value returned (\<open>Inr\<close>), with the state after the call.
\<close>

definition sendProduct ::
  "vcmtp_flags \<Rightarrow> 'f float_ops \<Rightarrow> store \<Rightarrow> send_env \<Rightarrow> ptr \<Rightarrow> size_t \<Rightarrow> ptr \<Rightarrow> uint32_t \<Rightarrow>
   'f vcmtpSendv3 \<Rightarrow> (exn + uint32_t) \<times> 'f vcmtpSendv3" where
  "sendProduct fl ops mem env data_p dataSize meta_p meta_size s =
     (case sendProduct_try fl ops mem env data_p dataSize meta_p meta_size s of
        (Some e, s1) \<Rightarrow>
          (case taskExit e s1 of
             (Some thrown, s2) \<Rightarrow> (Inl thrown, s2)
           | (None, s2) \<Rightarrow> (Inl (copy_as_std_exception e), s2))
      | (None, s1) \<Rightarrow> (Inr (prodIndex s1), s1\<lparr>prodIndex := prodIndex s1 + 1\<rparr>))"


section \<open>Concrete instances\<close>

text \<open>
  Values for the examples below: eleven distinct flag values; an idealised instance of
  the float arithmetic, on integers and exact, with a tick of the clock for a second
  (it is not IEEE arithmetic, and no statement below depends on it but the examples);
  a memory whose byte at address \<open>a\<close> is \<open>a mod 256\<close>;
  an environment in which nothing fails and the multicast takes three ticks; a sender
  with a notifier; and a retransmission entry for a product of 3000 bytes at address
  1000 with four bytes of metadata at address 200.
\<close>

definition example_flags :: vcmtp_flags where
  "example_flags =
     \<lparr>VCMTP_BOP = 1, VCMTP_EOP = 2, VCMTP_MEM_DATA = 4, VCMTP_RETX_REQ = 8,
      VCMTP_RETX_REJ = 16, VCMTP_RETX_END = 32, VCMTP_RETX_DATA = 64,
      VCMTP_BOP_REQ = 128, VCMTP_RETX_BOP = 256, VCMTP_EOP_REQ = 512,
      VCMTP_RETX_EOP = 1024\<rparr>"

definition exact_ops :: "int float_ops" where
  "exact_ops = \<lparr>float_lit = (\<lambda>n. n), period_mul = (\<lambda>d r. d * r)\<rparr>"

definition example_mem :: store where
  "example_mem = (\<lambda>a. of_nat a)"

definition example_env :: send_env where
  "example_env = \<lparr>new_throws = False, now_start = 10, now_end = 13, push_throws = False\<rparr>"

definition example_sender :: "int vcmtpSendv3" where
  "example_sender = vcmtpSendv3_new2 exact_ops 0 True"

definition example_meta :: "uint32_t \<Rightarrow> sockfd set \<Rightarrow> int RetxMetadata" where
  "example_meta pindex receivers =
     \<lparr>RetxMetadata.prodindex = pindex, prodLength = 3000, metaSize = 4, metadata = 200,
      mcastStartTime = 10, mcastEndTime = 13,
      RetxMetadata.retxTimeoutRatio = 500000, retxTimeoutPeriod = 1500000,
      dataprod_p = 1000, unfinReceivers = receivers\<rparr>"

definition example_header :: "uint32_t \<Rightarrow> uint32_t \<Rightarrow> uint16_t \<Rightarrow> uint16_t \<Rightarrow> VcmtpHeader" where
  "example_header pindex seq plen flag =
     \<lparr>VcmtpHeader.prodindex = pindex, seqnum = seq, payloadlen = plen, flags = flag\<rparr>"

text \<open>The four request kinds the worker tells apart have different flag values.\<close>

definition request_flags_distinct :: "vcmtp_flags \<Rightarrow> bool" where
  "request_flags_distinct fl =
     distinct [VCMTP_RETX_REQ fl, VCMTP_RETX_END fl, VCMTP_BOP_REQ fl, VCMTP_EOP_REQ fl]"

text \<open>The message \<^verbatim>\<open>rejRetxReq\<close> hands to \<^verbatim>\<open>TcpSend::send\<close>.\<close>

definition RETX_REJ_msg :: "vcmtp_flags \<Rightarrow> uint32_t \<Rightarrow> sockfd \<Rightarrow> tcp_msg" where
  "RETX_REJ_msg fl pindex sock =
     \<lparr>msg_sock = sock,
      msg_header = \<lparr>net_prodindex = htonl pindex, net_seqnum = [0, 0, 0, 0],
                    net_payloadlen = [0, 0], net_flags = htons (VCMTP_RETX_REJ fl)\<rparr>,
      msg_body = []\<rparr>"


text \<open>The message one pass of the loop of \<^verbatim>\<open>retransmit\<close> hands to
  \<^verbatim>\<open>TcpSend::send\<close>, for the values \<^verbatim>\<open>start\<close> and \<^verbatim>\<open>payLen\<close> have then.\<close>

definition RETX_DATA_msg :: "vcmtp_flags \<Rightarrow> store \<Rightarrow> VcmtpHeader \<Rightarrow> 'f RetxMetadata \<Rightarrow> sockfd \<Rightarrow>
    uint32_t \<Rightarrow> uint16_t \<Rightarrow> tcp_msg" where
  "RETX_DATA_msg fl mem recvheader retxMeta sock start payLen =
     \<lparr>msg_sock = sock,
      msg_header = \<lparr>net_prodindex = htonl (VcmtpHeader.prodindex recvheader),
                    net_seqnum = htonl start,
                    net_payloadlen = htons payLen,
                    net_flags = htons (VCMTP_RETX_DATA fl)\<rparr>,
      msg_body = read_bytes mem (dataprod_p retxMeta + unat start) (unat payLen)\<rparr>"

text \<open>The message \<^verbatim>\<open>retransBOP\<close> hands to \<^verbatim>\<open>TcpSend::send\<close>.\<close>

definition RETX_BOP_msg :: "vcmtp_flags \<Rightarrow> store \<Rightarrow> VcmtpHeader \<Rightarrow> 'f RetxMetadata \<Rightarrow> sockfd \<Rightarrow> tcp_msg" where
  "RETX_BOP_msg fl mem recvheader retxMeta sock =
     \<lparr>msg_sock = sock,
      msg_header = \<lparr>net_prodindex = htonl (VcmtpHeader.prodindex recvheader),
                    net_seqnum = [0, 0, 0, 0],
                    net_payloadlen = htons (of_nat (unat (metaSize retxMeta) + (VCMTP_DATA_LEN - AVAIL_BOP_LEN))),
                    net_flags = htons (VCMTP_RETX_BOP fl)\<rparr>,
      msg_body = take (unat (of_nat (unat (metaSize retxMeta) + (VCMTP_DATA_LEN - AVAIL_BOP_LEN)) :: uint16_t))
                   (htonl (prodLength retxMeta) @ htons (metaSize retxMeta) @
                    read_bytes mem (metadata retxMeta) (unat (metaSize retxMeta)))\<rparr>"


text \<open>Two states of the sender that differ at most in the datagrams sent and in the
  outcomes still scheduled for \<^verbatim>\<open>UdpSend\<close>.\<close>

definition only_udp :: "'f vcmtpSendv3 \<Rightarrow> 'f vcmtpSendv3 \<Rightarrow> bool" where
  "only_udp s s' \<longleftrightarrow> s' = s\<lparr>udp_sent := udp_sent s', udp_script := udp_script s'\<rparr>"

text \<open>The example product inserted into the table of the example sender: the entry
  \<^verbatim>\<open>addRetxMetadata\<close> returns and the sender after the call.\<close>

definition example_inserted :: "(exn + int RetxMetadata) \<times> int vcmtpSendv3" where
  "example_inserted = addRetxMetadata exact_ops example_env 1000 3000 200 4 example_sender"


section \<open>Properties of RetxThreads\<close>

lemma RetxThreads_shutdown_cancels_all:
  "fst (RetxThreads_shutdown threads) = threads"
  by (simp add: RetxThreads_shutdown_def)

lemma RetxThreads_shutdown_keeps_list:
  "snd (RetxThreads_shutdown threads) = threads"
  by (simp add: RetxThreads_shutdown_def)

text \<open>
  Claim C7 (shutdown cancels every handle in the list and leaves the list empty).
  The first half holds; the second does not: with two workers registered, handles 11
  and 12, \<^verbatim>\<open>shutdown\<close> cancels both and the list still holds both afterwards.
\<close>

theorem RetxThreads_shutdown_not_emptied:
  "RetxThreads_shutdown (RetxThreads_add 12 (RetxThreads_add 11 [])) = ([12, 11], [12, 11])"
  by (simp add: RetxThreads_shutdown_def RetxThreads_add_def)


section \<open>The timer and the END path\<close>

lemma timerThread_iter_ignores_popped:
  "timerThread_iter (Some p) uninit s = timerThread_iter (Some q) uninit s"
  by (simp add: timerThread_iter_def)

lemma timerThread_iter_removes_uninit:
  "timerThread_iter (Some p) uninit s =
     (True, if notifier s \<and> sendMeta s uninit \<noteq> None
            then s\<lparr>sendMeta := (sendMeta s)(uninit := None), notified := notified s @ [uninit]\<rparr>
            else s\<lparr>sendMeta := (sendMeta s)(uninit := None)\<rparr>)"
  by (auto simp: timerThread_iter_def rmRetxMetadata_def rmRetxMetadataNoLock_def
      notify_of_eop_def Let_def fun_upd_idem split: option.splits)

text \<open>
  Claim C2 (when \<^verbatim>\<open>pop()\<close> returns an index \<open>p\<close>, the timer calls
  \<^verbatim>\<open>rmRetxMetadata(p)\<close> and, iff that returns true, notifies with \<open>p\<close>).
  The code removes and notifies the index found in the uninitialised outer local
  instead. With entries 5 and 7 in the table, \<^verbatim>\<open>pop()\<close> returning 5 and the
  outer local holding 7, the iteration removes entry 7 and notifies 7; entry 5, whose
  time had come, stays in the table.
\<close>

theorem timerThread_iter_reads_outer_local:
  "notified (snd (timerThread_iter (Some 5) 7
      (example_sender\<lparr>sendMeta := [5 \<mapsto> example_meta 5 {3}, 7 \<mapsto> example_meta 7 {3}]\<rparr>))) = [7]
   \<and> sendMeta (snd (timerThread_iter (Some 5) 7
      (example_sender\<lparr>sendMeta := [5 \<mapsto> example_meta 5 {3}, 7 \<mapsto> example_meta 7 {3}]\<rparr>))) 5
       = Some (example_meta 5 {3})
   \<and> sendMeta (snd (timerThread_iter (Some 5) 7
      (example_sender\<lparr>sendMeta := [5 \<mapsto> example_meta 5 {3}, 7 \<mapsto> example_meta 7 {3}]\<rparr>))) 7
       = None"
  by (simp add: timerThread_iter_def rmRetxMetadata_def rmRetxMetadataNoLock_def
      notify_of_eop_def example_sender_def vcmtpSendv3_new2_def vcmtpSendv3_new3_def)

text \<open>
  Every step either keeps the number of notifications for \<open>p\<close> or takes the entry of
  \<open>p\<close> out of the table and adds one notification; no step puts an entry in.
\<close>

lemma timerThread_iter_count:
  "count_list (notified (snd (timerThread_iter popped uninit s))) p
     + (if sendMeta (snd (timerThread_iter popped uninit s)) p = None then 0 else 1)
   \<le> count_list (notified s) p + (if sendMeta s p = None then 0 else 1)"
  by (auto simp: timerThread_iter_def rmRetxMetadata_def rmRetxMetadataNoLock_def
      notify_of_eop_def Let_def split: option.splits prod.splits)

lemma handleRetxEnd_count:
  "count_list (notified (handleRetxEnd h r sock s)) p
     + (if sendMeta (handleRetxEnd h r sock s) p = None then 0 else 1)
   \<le> count_list (notified s) p + (if sendMeta s p = None then 0 else 1)"
  by (auto simp: handleRetxEnd_def clearUnfinishedSet_def rmRetxMetadataNoLock_def
      notify_of_eop_def Let_def split: option.splits prod.splits if_splits)

lemma run_steps_count:
  "count_list (notified (run_steps es s)) p
     + (if sendMeta (run_steps es s) p = None then 0 else 1)
   \<le> count_list (notified s) p + (if sendMeta s p = None then 0 else 1)"
proof (induction es arbitrary: s)
  case Nil
  show ?case by simp
next
  case (Cons e es)
  have "count_list (notified (run_step e s)) p
          + (if sendMeta (run_step e s) p = None then 0 else 1)
        \<le> count_list (notified s) p + (if sendMeta s p = None then 0 else 1)"
    by (cases e) (simp_all only: run_step.simps timerThread_iter_count handleRetxEnd_count)
  with Cons.IH[of "run_step e s"] show ?case by (simp del: run_step.simps)
qed

text \<open>Once the entry is gone, either path is a no-op, whatever pointer the worker holds.\<close>

lemma handleRetxEnd_absent_noop:
  "sendMeta s (VcmtpHeader.prodindex h) = None \<Longrightarrow> handleRetxEnd h r sock s = s"
  by (simp add: handleRetxEnd_def clearUnfinishedSet_def)

lemma timerThread_iter_absent_noop:
  "sendMeta s uninit = None \<Longrightarrow> timerThread_iter (Some p) uninit s = (True, s)"
  by (simp add: timerThread_iter_def rmRetxMetadata_def rmRetxMetadataNoLock_def)

lemma clearUnfinishedSet_true_removes:
  "clearUnfinishedSet p sock m = (True, m') \<Longrightarrow> m' p = None"
  by (auto simp: clearUnfinishedSet_def rmRetxMetadataNoLock_def Let_def
      split: option.splits if_splits)

lemma rmRetxMetadata_removes:
  "rmRetxMetadata p m = (b, m') \<Longrightarrow> m' p = None \<and> (b \<longleftrightarrow> m p \<noteq> None)"
  by (auto simp: rmRetxMetadata_def rmRetxMetadataNoLock_def split: option.splits)

text \<open>
  From any state of the table and for any sequence of END steps and timer steps, with
  any pointers held by the workers and any values in the timer's uninitialised local,
  the notifications made during the run name each product index at most once.
\<close>

lemma notify_of_eop_at_most_once:
  "count_list (notified (run_steps es (s\<lparr>notified := []\<rparr>))) p \<le> 1"
  using run_steps_count[of es "s\<lparr>notified := []\<rparr>" p] by (simp split: if_splits)

text \<open>
  The END path fires exactly when \<^verbatim>\<open>clearUnfinishedSet\<close> returns true, that is when
  the entry is present and no receiver other than the sender of the END is left in its
  set; the entry is then gone from the table. With a notifier, a product index has been
  notified exactly once when its entry has left the table, and not at all while the
  entry is there.
\<close>

lemma clearUnfinishedSet_fires_iff:
  "fst (clearUnfinishedSet p sock m) \<longleftrightarrow> (\<exists>e. m p = Some e \<and> unfinReceivers e \<subseteq> {sock})"
  by (auto simp: clearUnfinishedSet_def rmRetxMetadataNoLock_def Let_def split: option.splits)

lemma clearUnfinishedSet_table:
  "snd (clearUnfinishedSet p sock m) =
     (case m p of
        None \<Rightarrow> m
      | Some e \<Rightarrow> if unfinReceivers e \<subseteq> {sock} then m(p := None)
                  else m(p \<mapsto> e\<lparr>unfinReceivers := unfinReceivers e - {sock}\<rparr>))"
  by (auto simp: clearUnfinishedSet_def rmRetxMetadataNoLock_def Let_def split: option.splits)

lemma handleRetxEnd_fires_iff:
  "handleRetxEnd h r sock s =
     (if r = None then s
      else if fst (clearUnfinishedSet (VcmtpHeader.prodindex h) sock (sendMeta s)) \<and> notifier s
      then s\<lparr>sendMeta := snd (clearUnfinishedSet (VcmtpHeader.prodindex h) sock (sendMeta s)),
             notified := notified s @ [VcmtpHeader.prodindex h]\<rparr>
      else s\<lparr>sendMeta := snd (clearUnfinishedSet (VcmtpHeader.prodindex h) sock (sendMeta s))\<rparr>)"
  by (auto simp: handleRetxEnd_def notify_of_eop_def Let_def split: prod.splits)

lemma handleRetxEnd_last_receiver_fires:
  assumes "r \<noteq> None" and "notifier s"
    and "sendMeta s (VcmtpHeader.prodindex h) = Some e" and "unfinReceivers e \<subseteq> {sock}"
  shows "handleRetxEnd h r sock s =
           s\<lparr>sendMeta := (sendMeta s)(VcmtpHeader.prodindex h := None),
             notified := notified s @ [VcmtpHeader.prodindex h]\<rparr>"
  using assms clearUnfinishedSet_fires_iff[of "VcmtpHeader.prodindex h" sock "sendMeta s"]
  by (auto simp: handleRetxEnd_fires_iff clearUnfinishedSet_table)

lemma timerThread_iter_exact:
  "notifier s \<Longrightarrow>
   count_list (notified (snd (timerThread_iter popped uninit s))) p
     + (if sendMeta (snd (timerThread_iter popped uninit s)) p = None then 0 else 1)
   = count_list (notified s) p + (if sendMeta s p = None then 0 else 1)"
  by (auto simp: timerThread_iter_def rmRetxMetadata_def rmRetxMetadataNoLock_def
      notify_of_eop_def Let_def split: option.splits prod.splits)

lemma handleRetxEnd_exact:
  "notifier s \<Longrightarrow>
   count_list (notified (handleRetxEnd h r sock s)) p
     + (if sendMeta (handleRetxEnd h r sock s) p = None then 0 else 1)
   = count_list (notified s) p + (if sendMeta s p = None then 0 else 1)"
  by (auto simp: handleRetxEnd_def clearUnfinishedSet_def rmRetxMetadataNoLock_def
      notify_of_eop_def Let_def split: option.splits prod.splits if_splits)

lemma run_step_notifier: "notifier (run_step e s) = notifier s"
  by (cases e) (auto simp: handleRetxEnd_def timerThread_iter_def notify_of_eop_def Let_def
      split: prod.splits option.splits)

lemma run_steps_exact:
  "notifier s \<Longrightarrow>
   count_list (notified (run_steps es s)) p
     + (if sendMeta (run_steps es s) p = None then 0 else 1)
   = count_list (notified s) p + (if sendMeta s p = None then 0 else 1)"
proof (induction es arbitrary: s)
  case Nil
  show ?case by simp
next
  case (Cons e es)
  have "count_list (notified (run_step e s)) p
          + (if sendMeta (run_step e s) p = None then 0 else 1)
        = count_list (notified s) p + (if sendMeta s p = None then 0 else 1)"
    using Cons.prems
    by (cases e) (simp_all only: run_step.simps timerThread_iter_exact handleRetxEnd_exact)
  moreover have "notifier (run_step e s)" using Cons.prems by (simp only: run_step_notifier)
  ultimately show ?case using Cons.IH[of "run_step e s"] by (simp del: run_step.simps)
qed

lemma example_both_ENDs_fire_once:
  "notified (run_steps
       [RetxEnd (example_header 5 0 0 32) (Some (example_meta 5 {3, 4})) 4,
        RetxEnd (example_header 5 0 0 32) (Some (example_meta 5 {3, 4})) 3,
        TimerPop 5 5]
       (example_sender\<lparr>sendMeta := [5 \<mapsto> example_meta 5 {3, 4}]\<rparr>)) = [5]"
  by (simp add: handleRetxEnd_def clearUnfinishedSet_def timerThread_iter_def rmRetxMetadata_def
      rmRetxMetadataNoLock_def notify_of_eop_def Let_def example_header_def example_meta_def
      example_sender_def vcmtpSendv3_new2_def vcmtpSendv3_new3_def insert_Diff_if)

text \<open>
  Claim C1 (\<^verbatim>\<open>notify_of_eop\<close> fires at most once per product, either when the END
  of the last receiver makes \<^verbatim>\<open>clearUnfinishedSet\<close> return true or when the
  timer's \<^verbatim>\<open>rmRetxMetadata\<close> removes the entry: exactly one of the two paths fires
  and the other is a no-op, for every interleaving of the workers and the timer). The
  bound holds, and so does the END path. The timer path removes and notifies the index
  found in its uninitialised local, not the one it popped. Product 5 was
  multicast to the receivers 3 and 4; receiver 4 sends its END, which leaves receiver 3
  in the set and does not fire; then the time of product 5 comes and
  \<^verbatim>\<open>pop()\<close> returns 5 while the outer local holds 7. Nothing is notified and the
  entry of product 5 stays in the table, in this order of the two steps and in the
  other. Had the timer read the index it popped, the run would have notified 5 once.
\<close>

theorem expired_product_fires_neither_path:
  "notified (run_steps
       [RetxEnd (example_header 5 0 0 32) (Some (example_meta 5 {3, 4})) 4, TimerPop 5 7]
       (example_sender\<lparr>sendMeta := [5 \<mapsto> example_meta 5 {3, 4}]\<rparr>)) = []
   \<and> sendMeta (run_steps
       [RetxEnd (example_header 5 0 0 32) (Some (example_meta 5 {3, 4})) 4, TimerPop 5 7]
       (example_sender\<lparr>sendMeta := [5 \<mapsto> example_meta 5 {3, 4}]\<rparr>)) 5
       = Some (example_meta 5 {3})
   \<and> notified (run_steps
       [TimerPop 5 7, RetxEnd (example_header 5 0 0 32) (Some (example_meta 5 {3, 4})) 4]
       (example_sender\<lparr>sendMeta := [5 \<mapsto> example_meta 5 {3, 4}]\<rparr>)) = []
   \<and> notified (run_steps
       [RetxEnd (example_header 5 0 0 32) (Some (example_meta 5 {3, 4})) 4, TimerPop 5 5]
       (example_sender\<lparr>sendMeta := [5 \<mapsto> example_meta 5 {3, 4}]\<rparr>)) = [5]"
  by (simp add: handleRetxEnd_def clearUnfinishedSet_def timerThread_iter_def rmRetxMetadata_def
      rmRetxMetadataNoLock_def notify_of_eop_def Let_def example_header_def example_meta_def
      example_sender_def vcmtpSendv3_new2_def vcmtpSendv3_new3_def insert_Diff_if)


section \<open>Requests for products that are not in the table\<close>

lemma rejRetxReq_eq:
  "rejRetxReq fl p sock s =
     s\<lparr>tcp_sent := tcp_sent s @ [RETX_REJ_msg fl p sock], tcp_rets := tl (tcp_rets s)\<rparr>"
  by (simp add: rejRetxReq_def TcpSend_send_def RETX_REJ_msg_def Let_def split: list.splits)

text \<open>
  Claim C6 (a RETX_REQ, BOP_REQ or EOP_REQ for a product index that is not in the table
  is answered by exactly one RETX_REJ, header-only, with payloadlen 0 and the requested
  index, and the table is not modified). One iteration of the worker changes the state
  in one way only: one call of \<^verbatim>\<open>TcpSend::send\<close> with the rejection message is
  added, and the result scheduled for that call is used up.
\<close>

theorem absent_request_rejected_once:
  assumes "request_flags_distinct fl"
    and "flags h = VCMTP_RETX_REQ fl \<or> flags h = VCMTP_BOP_REQ fl \<or> flags h = VCMTP_EOP_REQ fl"
    and "sendMeta s (VcmtpHeader.prodindex h) = None"
  shows "RunRetxThread_iter fl mem (Some h) sock s =
           Some (None, s\<lparr>tcp_sent := tcp_sent s @ [RETX_REJ_msg fl (VcmtpHeader.prodindex h) sock],
                         tcp_rets := tl (tcp_rets s)\<rparr>)"
  using assms
  by (auto simp: RunRetxThread_iter_def getMetadata_def handleRetxReq_def handleBopReq_def
      handleEopReq_def rejRetxReq_eq request_flags_distinct_def)

theorem absent_request_rejected_once_witness:
  "request_flags_distinct example_flags
   \<and> (flags (example_header 9 0 1448 128) = VCMTP_RETX_REQ example_flags
        \<or> flags (example_header 9 0 1448 128) = VCMTP_BOP_REQ example_flags
        \<or> flags (example_header 9 0 1448 128) = VCMTP_EOP_REQ example_flags)
   \<and> sendMeta example_sender (VcmtpHeader.prodindex (example_header 9 0 1448 128)) = None
   \<and> RunRetxThread_iter example_flags example_mem (Some (example_header 9 0 1448 128)) 4
         example_sender
       = Some (None, example_sender\<lparr>tcp_sent := [RETX_REJ_msg example_flags 9 4],
                                      tcp_rets := []\<rparr>)"
  using absent_request_rejected_once[of example_flags "example_header 9 0 1448 128"
          example_sender example_mem 4]
  by (simp add: request_flags_distinct_def example_flags_def example_header_def
      example_sender_def vcmtpSendv3_new2_def vcmtpSendv3_new3_def)

lemma handleRetxEnd_tcp:
  "tcp_sent (handleRetxEnd h r sock s) = tcp_sent s
   \<and> tcp_rets (handleRetxEnd h r sock s) = tcp_rets s"
  by (auto simp: handleRetxEnd_def notify_of_eop_def Let_def split: prod.splits)

text \<open>
  Claim C10 (a RETX_END is never answered on the TCP connection, whether or not the
  entry is present; when the entry is absent \<^verbatim>\<open>handleRetxEnd\<close> does nothing at
  all). The iteration of the worker for a RETX_END header returns normally and makes
  no call of \<^verbatim>\<open>TcpSend::send\<close>; when the table has no entry for the index the
  state is unchanged; and \<^verbatim>\<open>handleRetxEnd\<close> called with a null pointer returns the
  state as it was.
\<close>

theorem RETX_END_never_answered:
  assumes "VCMTP_RETX_REQ fl \<noteq> VCMTP_RETX_END fl" and "flags h = VCMTP_RETX_END fl"
  shows "(\<exists>s'. RunRetxThread_iter fl mem (Some h) sock s = Some (None, s')
               \<and> tcp_sent s' = tcp_sent s)
         \<and> (sendMeta s (VcmtpHeader.prodindex h) = None \<longrightarrow>
              RunRetxThread_iter fl mem (Some h) sock s = Some (None, s))
         \<and> handleRetxEnd h None sock s = s"
proof -
  have "RunRetxThread_iter fl mem (Some h) sock s =
          Some (None, handleRetxEnd h (sendMeta s (VcmtpHeader.prodindex h)) sock s)"
    using assms by (simp add: RunRetxThread_iter_def getMetadata_def)
  moreover have "handleRetxEnd h None sock s = s"
    by (simp add: handleRetxEnd_def)
  ultimately show ?thesis
    by (simp add: handleRetxEnd_tcp)
qed

theorem RETX_END_never_answered_witness:
  "VCMTP_RETX_REQ example_flags \<noteq> VCMTP_RETX_END example_flags
   \<and> flags (example_header 9 0 0 32) = VCMTP_RETX_END example_flags
   \<and> sendMeta example_sender (VcmtpHeader.prodindex (example_header 9 0 0 32)) = None
   \<and> RunRetxThread_iter example_flags example_mem (Some (example_header 9 0 0 32)) 4
         example_sender = Some (None, example_sender)"
  using RETX_END_never_answered[of example_flags "example_header 9 0 0 32" example_mem 4
          example_sender]
  by (simp add: example_flags_def example_header_def
      example_sender_def vcmtpSendv3_new2_def vcmtpSendv3_new3_def)


section \<open>Data retransmission\<close>

lemma read_bytes_add:
  "read_bytes mem p (a + b) = read_bytes mem p a @ read_bytes mem (p + a) b"
proof -
  have "[p ..< p + a + b] = [p ..< p + a] @ [p + a ..< p + a + b]"
    by (rule upt_add_eq_append) simp
  then show ?thesis by (simp add: read_bytes_def add.assoc)
qed

lemma read_bytes_Suc:
  "read_bytes mem p (Suc n) = mem p # read_bytes mem (Suc p) n"
proof -
  have "[p ..< p + Suc n] = p # [Suc p ..< p + Suc n]"
    by (rule upt_conv_Cons) simp
  then show ?thesis by (simp add: read_bytes_def)
qed

lemma length_read_bytes: "length (read_bytes mem p n) = n"
  by (simp add: read_bytes_def)

lemma retransmit_loop_done:
  "retransmit_loop fl mem h m sock start 0 payLen s = Some (None, s)"
  by (subst retransmit_loop.simps) simp

lemma retransmit_loop_full_block:
  assumes "0 < nbytes" and "\<not> ucast payLen > nbytes" and "payLen \<noteq> 0" and "tcp_rets s = []"
  shows "retransmit_loop fl mem h m sock start nbytes payLen s =
         retransmit_loop fl mem h m sock start (nbytes - ucast payLen) payLen
           (s\<lparr>tcp_sent := tcp_sent s @ [RETX_DATA_msg fl mem h m sock start payLen]\<rparr>)"
  using assms
  by (subst retransmit_loop.simps) (simp add: TcpSend_send_def Let_def RETX_DATA_msg_def)

lemma example_blocks_differ:
  "read_bytes example_mem 1000 1448 @ read_bytes example_mem 1000 1448
     \<noteq> read_bytes example_mem 1000 2896"
proof
  assume eq: "read_bytes example_mem 1000 1448 @ read_bytes example_mem 1000 1448
     = read_bytes example_mem 1000 2896"
  have "read_bytes example_mem 1000 (1448 + 1448)
          = read_bytes example_mem 1000 1448 @ read_bytes example_mem (1000 + 1448) 1448"
    by (rule read_bytes_add)
  with eq have "read_bytes example_mem 1000 1448 = read_bytes example_mem 2448 1448"
    by simp
  then have "hd (read_bytes example_mem 1000 (Suc 1447)) = hd (read_bytes example_mem 2448 (Suc 1447))"
    by simp
  then have "example_mem 1000 = example_mem 2448"
    by (simp only: read_bytes_Suc list.sel)
  then show False by (simp add: example_mem_def)
qed

lemma example_retransmit:
  "retransmit example_flags example_mem (example_header 0 0 2896 8) (example_meta 0 {4}) 4
       example_sender
     = Some (None, example_sender\<lparr>tcp_sent :=
         [RETX_DATA_msg example_flags example_mem (example_header 0 0 2896 8) (example_meta 0 {4}) 4 0 1448,
          RETX_DATA_msg example_flags example_mem (example_header 0 0 2896 8) (example_meta 0 {4}) 4 0 1448]\<rparr>)"
proof -
  have r: "tcp_rets example_sender = []" "tcp_sent example_sender = []"
    by (simp_all add: example_sender_def vcmtpSendv3_new2_def vcmtpSendv3_new3_def)
  have "retransmit example_flags example_mem (example_header 0 0 2896 8) (example_meta 0 {4}) 4
       example_sender
     = retransmit_loop example_flags example_mem (example_header 0 0 2896 8) (example_meta 0 {4}) 4
         0 2896 1448 example_sender"
    by (simp add: retransmit_def example_header_def example_meta_def VCMTP_DATA_LEN_def)
  also have "\<dots> = retransmit_loop example_flags example_mem (example_header 0 0 2896 8) (example_meta 0 {4}) 4
         0 (2896 - ucast (1448 :: 16 word)) 1448 (example_sender\<lparr>tcp_sent := tcp_sent example_sender @
         [RETX_DATA_msg example_flags example_mem (example_header 0 0 2896 8) (example_meta 0 {4}) 4 0 1448]\<rparr>)"
    by (rule retransmit_loop_full_block) (simp_all add: r)
  also have "\<dots> = retransmit_loop example_flags example_mem (example_header 0 0 2896 8) (example_meta 0 {4}) 4
         0 1448 1448 (example_sender\<lparr>tcp_sent := 
         [RETX_DATA_msg example_flags example_mem (example_header 0 0 2896 8) (example_meta 0 {4}) 4 0 1448]\<rparr>)"
    by (simp add: r)
  also have "\<dots> = retransmit_loop example_flags example_mem (example_header 0 0 2896 8) (example_meta 0 {4}) 4
         0 (1448 - ucast (1448 :: 16 word)) 1448 (example_sender\<lparr>tcp_sent := 
         [RETX_DATA_msg example_flags example_mem (example_header 0 0 2896 8) (example_meta 0 {4}) 4 0 1448]\<rparr>
          \<lparr>tcp_sent := tcp_sent (example_sender\<lparr>tcp_sent := 
         [RETX_DATA_msg example_flags example_mem (example_header 0 0 2896 8) (example_meta 0 {4}) 4 0 1448]\<rparr>) @
         [RETX_DATA_msg example_flags example_mem (example_header 0 0 2896 8) (example_meta 0 {4}) 4 0 1448]\<rparr>)"
    by (rule retransmit_loop_full_block) (simp_all add: r)
  also have "\<dots> = Some (None, example_sender\<lparr>tcp_sent :=
         [RETX_DATA_msg example_flags example_mem (example_header 0 0 2896 8) (example_meta 0 {4}) 4 0 1448,
          RETX_DATA_msg example_flags example_mem (example_header 0 0 2896 8) (example_meta 0 {4}) 4 0 1448]\<rparr>)"
    by (simp add: retransmit_loop_done)
  finally show ?thesis .
qed

text \<open>
  A request that ends within the block it starts in is served by one frame: it starts at
  the aligned offset and carries the product bytes from there to the end of the
  request.
\<close>

lemma ucast_32_16_32_le:
  assumes "(n::32 word) \<le> ucast (q::16 word)"
  shows "ucast (ucast n :: 16 word) = n"
proof -
  have "unat q < 2 ^ 16" using unsigned_less[of q] by simp
  with assms have b: "unat n < 2 ^ 16" by (simp add: word_le_nat_alt unat_ucast_16_32)
  then have "unat n < 2 ^ 32" by simp
  with b show ?thesis
    by (simp add: word_unat_eq_iff unsigned_ucast_eq unsigned_take_bit_eq take_bit_nat_eq_self)
qed

lemma retransmit_loop_last_block:
  assumes "0 < nbytes" and "nbytes \<le> ucast payLen" and "tcp_rets s = []"
  shows "retransmit_loop fl mem h m sock start nbytes payLen s =
           Some (None, s\<lparr>tcp_sent := tcp_sent s @
                   [RETX_DATA_msg fl mem h m sock start (ucast nbytes)]\<rparr>)"
proof -
  let ?payLen1 = "(if ucast payLen > nbytes then ucast nbytes else payLen)"
  have rt: "(ucast (ucast nbytes :: 16 word) :: 32 word) = nbytes"
    using assms(2) by (rule ucast_32_16_32_le)
  have p1: "?payLen1 = ucast nbytes"
  proof (cases "ucast payLen > nbytes")
    case True then show ?thesis by simp
  next
    case False
    with assms(2) have "nbytes = ucast payLen" by simp
    then have "(ucast nbytes :: 16 word) = payLen"
      by (simp add: word_unat_eq_iff unsigned_ucast_eq unsigned_take_bit_eq take_bit_nat_eq_self
            unsigned_less[of payLen, simplified])
    with False show ?thesis by simp
  qed
  have nz: "(ucast nbytes :: 16 word) \<noteq> 0"
    using rt assms(1) by (metis ucast_0 word_gt_0)
  show ?thesis
    using assms(1,3) nz
    by (subst retransmit_loop.simps)
       (simp add: p1 rt TcpSend_send_def Let_def RETX_DATA_msg_def retransmit_loop_done)
qed


lemma retransmit_single_block:
  assumes pl: "0 < payloadlen h"
    and inb: "unat (seqnum h) + unat (payloadlen h) \<le> unat (prodLength m)"
    and one: "unat (seqnum h) + unat (payloadlen h)
                \<le> (unat (seqnum h) div VCMTP_DATA_LEN) * VCMTP_DATA_LEN + VCMTP_DATA_LEN"
    and rets: "tcp_rets s = []"
  shows "\<exists>start n.
           unat start = (unat (seqnum h) div VCMTP_DATA_LEN) * VCMTP_DATA_LEN
         \<and> unat start + unat n = unat (seqnum h) + unat (payloadlen h)
         \<and> retransmit fl mem h m sock s =
             Some (None, s\<lparr>tcp_sent := tcp_sent s @ [RETX_DATA_msg fl mem h m sock start n]\<rparr>)
         \<and> msg_body (RETX_DATA_msg fl mem h m sock start n) =
             read_bytes mem (dataprod_p m + unat start) (unat n)"
proof -
  let ?q = "unat (seqnum h)" and ?l = "unat (payloadlen h)" and ?P = "unat (prodLength m)"
  let ?sum = "seqnum h + ucast (payloadlen h)"
  let ?out = "(if prodLength m \<le> ?sum then prodLength m else ?sum)"
  let ?start = "(seqnum h div 1448) * (1448 :: uint32_t)"
  let ?a = "(?q div 1448) * 1448"
  have P: "?P < 2 ^ 32" using unsigned_less[of "prodLength m"] by simp
  have l: "0 < ?l" using pl by (simp add: word_less_nat_alt)
  have "?q + unat (ucast (payloadlen h) :: uint32_t) < 2 ^ LENGTH(32)"
    using inb P by (simp add: unat_ucast_16_32)
  then have "unat ?sum = ?q + unat (ucast (payloadlen h) :: uint32_t)"
    by (rule unat_add_lem[THEN iffD1])
  then have sum: "unat ?sum = ?q + ?l" by (simp add: unat_ucast_16_32)
  have out: "unat ?out = ?q + ?l"
    using sum inb by (auto simp: word_le_nat_alt)
  have d: "unat (seqnum h div 1448) = ?q div 1448" by (simp add: unat_div)
  have a_le: "?a \<le> ?q" by simp
  have "unat (seqnum h div 1448) * unat (1448 :: uint32_t) < 2 ^ LENGTH(32)"
    using a_le inb P by (simp add: d)
  then have "unat ?start = unat (seqnum h div 1448) * unat (1448 :: uint32_t)"
    by (rule unat_mult_lem[THEN iffD1])
  then have start: "unat ?start = ?a" by (simp add: d)
  have start_le: "?start \<le> ?out" using start out a_le by (simp add: word_le_nat_alt)
  have nb: "unat (?out - ?start) = ?q + ?l - ?a"
    using start_le start out by (simp add: unat_sub)
  have pos: "0 < ?out - ?start" using nb l a_le by (simp add: word_less_nat_alt)
  have small: "unat (?out - ?start) \<le> 1448"
    using nb one by (simp add: VCMTP_DATA_LEN_def)
  have le: "?out - ?start \<le> ucast (1448 :: uint16_t)"
    using small by (simp add: word_le_nat_alt)
  have n16: "unat (ucast (?out - ?start) :: uint16_t) = unat (?out - ?start)"
    using small by (simp add: unsigned_ucast_eq take_bit_nat_eq_self)
  have loop: "retransmit_loop fl mem h m sock ?start (?out - ?start) 1448 s =
           Some (None, s\<lparr>tcp_sent := tcp_sent s @
                   [RETX_DATA_msg fl mem h m sock ?start (ucast (?out - ?start))]\<rparr>)"
    using pos le rets by (rule retransmit_loop_last_block)
  have r: "retransmit fl mem h m sock s =
             retransmit_loop fl mem h m sock ?start (?out - ?start) 1448 s"
    using pl by (simp add: retransmit_def Let_def VCMTP_DATA_LEN_def)
  have "unat (ucast (?out - ?start) :: uint16_t) = ?q + ?l - ?a"
    using n16 nb by (simp only:)
  with start a_le have "unat ?start + unat (ucast (?out - ?start) :: uint16_t) = ?q + ?l"
    by simp
  moreover have "unat ?start = (?q div VCMTP_DATA_LEN) * VCMTP_DATA_LEN"
    using start by (simp add: VCMTP_DATA_LEN_def)
  moreover have "msg_body (RETX_DATA_msg fl mem h m sock ?start (ucast (?out - ?start))) =
             read_bytes mem (dataprod_p m + unat ?start) (unat (ucast (?out - ?start) :: uint16_t))"
    by (simp add: RETX_DATA_msg_def)
  ultimately show ?thesis using r loop by metis
qed

text \<open>
  Claim C5 (for a RETX_REQ with \<open>payloadlen > 0\<close> and
  \<open>seqnum + payloadlen \<le> prodsize\<close>, the RETX_DATA frames start at the aligned offset,
  are full blocks except possibly the last, and their bodies concatenated are the
  product bytes from the aligned offset to \<open>seqnum + payloadlen\<close>). This holds as long
  as one frame is enough (\<open>retransmit_single_block\<close>). For a request of two blocks, \<open>seqnum = 0\<close> and
  \<open>payloadlen = 2896\<close> on a product of 3000 bytes, the loop sends two frames, and both
  carry \<open>seqnum = 0\<close> and the first 1448 bytes of the product: the offset is not
  advanced between the frames. The two bodies together are not the first 2896 bytes of
  the product.
\<close>

theorem retransmit_two_blocks_repeats_first:
  "retransmit example_flags example_mem (example_header 0 0 2896 8) (example_meta 0 {4}) 4
       example_sender
     = Some (None, example_sender\<lparr>tcp_sent :=
         [RETX_DATA_msg example_flags example_mem (example_header 0 0 2896 8)
            (example_meta 0 {4}) 4 0 1448,
          RETX_DATA_msg example_flags example_mem (example_header 0 0 2896 8)
            (example_meta 0 {4}) 4 0 1448]\<rparr>)
   \<and> net_seqnum (msg_header (RETX_DATA_msg example_flags example_mem
         (example_header 0 0 2896 8) (example_meta 0 {4}) 4 0 1448)) = htonl 0
   \<and> msg_body (RETX_DATA_msg example_flags example_mem (example_header 0 0 2896 8)
         (example_meta 0 {4}) 4 0 1448)
       @ msg_body (RETX_DATA_msg example_flags example_mem (example_header 0 0 2896 8)
         (example_meta 0 {4}) 4 0 1448)
       \<noteq> read_bytes example_mem (dataprod_p (example_meta 0 {4})) 2896"
  using example_retransmit example_blocks_differ
  by (simp add: RETX_DATA_msg_def example_meta_def)


section \<open>BOP retransmission and the metadata pointer\<close>


lemma length_htonl: "length (htonl x) = 4" by (simp add: htonl_def)
lemma length_htons: "length (htons x) = 2" by (simp add: htons_def)

lemma read_bytes_cong:
  "(\<forall>a. p \<le> a \<and> a < p + n \<longrightarrow> mem' a = mem a) \<Longrightarrow> read_bytes mem' p n = read_bytes mem p n"
  by (simp add: read_bytes_def)

lemma retransBOP_sent:
  "tcp_sent (snd (retransBOP fl mem h m sock s)) = tcp_sent s @ [RETX_BOP_msg fl mem h m sock]"
  by (simp add: retransBOP_def TcpSend_send_def RETX_BOP_msg_def Let_def split: list.splits)

lemma BOP_body_whole:
  assumes "unat (metaSize m) \<le> AVAIL_BOP_LEN"
  shows "msg_body (RETX_BOP_msg fl mem h m sock) =
           htonl (prodLength m) @ htons (metaSize m) @
           read_bytes mem (metadata m) (unat (metaSize m))"
proof -
  have "unat (metaSize m) + unat (6 :: uint16_t) < 2 ^ LENGTH(16)"
    using assms by (simp add: AVAIL_BOP_LEN_def)
  then have "unat (metaSize m + 6) = unat (metaSize m) + unat (6 :: uint16_t)"
    by (rule unat_add_lem[THEN iffD1])
  then show ?thesis
    by (simp add: RETX_BOP_msg_def VCMTP_DATA_LEN_def AVAIL_BOP_LEN_def length_htonl length_htons
        length_read_bytes)
qed

lemma addRetxMetadata_entry:
  assumes "addRetxMetadata ops env data_p dataSize meta_p (ucast meta_size) s = (Inr m, s1)"
  shows "metadata m = meta_p \<and> metaSize m = ucast (ucast (meta_size :: uint32_t) :: size_t)
         \<and> dataprod_p m = data_p \<and> prodLength m = ucast dataSize
         \<and> RetxMetadata.prodindex m = prodIndex s
         \<and> sendMeta s1 (prodIndex s) = Some m"
  using assms
  by (auto simp: addRetxMetadata_def Let_def RetxMetadata_new_def write_entry_def
      senderMetadata_addRetxMetadata_def split: if_splits)

lemma unat_metaSize:
  assumes "(meta_size :: uint32_t) \<le> of_nat AVAIL_BOP_LEN"
  shows "unat (ucast (ucast meta_size :: size_t) :: uint16_t) = unat meta_size
       \<and> unat (ucast meta_size :: uint16_t) = unat meta_size"
proof -
  from assms have "unat meta_size \<le> 1442" by (simp add: AVAIL_BOP_LEN_def word_le_nat_alt)
  then have "unat meta_size < 2 ^ 16" "unat meta_size < 2 ^ 64" by simp_all
  then show ?thesis
    by (simp add: unsigned_ucast_eq unsigned_take_bit_eq take_bit_nat_eq_self)
qed

lemma read_bytes_4: "read_bytes mem p 4 = [mem p, mem (p + 1), mem (p + 2), mem (p + 3)]"
proof -
  have "read_bytes mem p (Suc (Suc (Suc (Suc 0)))) = [mem p, mem (p + 1), mem (p + 2), mem (p + 3)]"
    by (simp only: read_bytes_Suc) (simp add: read_bytes_def numeral_eq_Suc)
  then show ?thesis by (simp add: numeral_eq_Suc)
qed

lemma example_inserted_eq:
  "example_inserted =
     (Inr ((example_meta 0 {})\<lparr>mcastEndTime := 0, retxTimeoutPeriod := 99999999999\<rparr>),
      example_sender\<lparr>sendMeta :=
        [0 \<mapsto> (example_meta 0 {})\<lparr>mcastEndTime := 0, retxTimeoutPeriod := 99999999999\<rparr>]\<rparr>)"
  by (simp add: example_inserted_def addRetxMetadata_def example_env_def example_sender_def
      vcmtpSendv3_new2_def vcmtpSendv3_new3_def exact_ops_def RetxMetadata_new_def Let_def
      write_entry_def senderMetadata_addRetxMetadata_def example_meta_def)

text \<open>
  Claim C9 (the entry owns a copy of the metadata bytes taken at insertion time, so
  that every later \<^verbatim>\<open>retransBOP\<close> serves those bytes whatever happens to the
  caller's buffer afterwards). The entry holds the caller's pointer. The example
  product is inserted with four bytes of metadata, 200, 201, 202 and 203, at address
  200; the application then overwrites the byte at address 200 with 255; the next
  \<^verbatim>\<open>retransBOP\<close> serves 255, 201, 202, 203.
\<close>

theorem retransBOP_serves_overwritten_metadata:
  "msg_body (last (tcp_sent (snd (retransBOP example_flags (example_mem(200 := 255))
       (example_header 0 0 0 128) (projr (fst example_inserted)) 4 (snd example_inserted)))))
     = htonl 3000 @ htons 4 @ [255, 201, 202, 203]
   \<and> htonl 3000 @ htons 4 @ read_bytes example_mem 200 4
     = htonl 3000 @ htons 4 @ [200, 201, 202, 203]"
  by (simp add: example_inserted_eq retransBOP_sent RETX_BOP_msg_def example_meta_def
      VCMTP_DATA_LEN_def AVAIL_BOP_LEN_def read_bytes_4 htonl_def htons_def example_mem_def)

text \<open>
  Claim C9 as amended: the entry stores the caller's metadata pointer and the metadata
  size, not the bytes. A later \<^verbatim>\<open>retransBOP\<close> sends one RETX_BOP message whose
  body is the product size, the metadata size and the bytes found at that pointer when
  it runs; these are the bytes of insertion time provided the application has left that
  memory as it was.
\<close>

theorem retransBOP_serves_memory_at_call:
  assumes "addRetxMetadata ops env data_p dataSize meta_p (ucast (meta_size :: uint32_t)) s = (Inr m, s1)"
    and "meta_size \<le> of_nat AVAIL_BOP_LEN"
  shows "metadata m = meta_p
     \<and> tcp_sent (snd (retransBOP fl mem' h m sock s2)) = tcp_sent s2 @ [RETX_BOP_msg fl mem' h m sock]
     \<and> msg_body (RETX_BOP_msg fl mem' h m sock) =
         htonl (ucast dataSize) @ htons (ucast meta_size) @ read_bytes mem' meta_p (unat meta_size)
     \<and> ((\<forall>a. meta_p \<le> a \<and> a < meta_p + unat meta_size \<longrightarrow> mem' a = mem a) \<longrightarrow>
          msg_body (RETX_BOP_msg fl mem' h m sock) =
            htonl (ucast dataSize) @ htons (ucast meta_size) @ read_bytes mem meta_p (unat meta_size))"
proof -
  from assms(1) have e: "metadata m = meta_p" "metaSize m = ucast (ucast meta_size :: size_t)"
    "prodLength m = ucast dataSize"
    using addRetxMetadata_entry[OF assms(1)] by simp_all
  have u: "unat (metaSize m) = unat meta_size"
    using unat_metaSize[OF assms(2)] by (simp only: e(2))
  have ms: "metaSize m = ucast meta_size"
    using u unat_metaSize[OF assms(2)] by (simp only: word_unat_eq_iff)
  have "unat (metaSize m) \<le> AVAIL_BOP_LEN"
    using u assms(2) by (simp add: AVAIL_BOP_LEN_def word_le_nat_alt)
  then have b: "msg_body (RETX_BOP_msg fl mem' h m sock) =
           htonl (prodLength m) @ htons (metaSize m) @
           read_bytes mem' (metadata m) (unat (metaSize m))"
    by (rule BOP_body_whole)
  show ?thesis
    using e(1,3) u ms b read_bytes_cong[of meta_p "unat meta_size" mem' mem]
    by (simp add: retransBOP_sent)
qed

theorem retransBOP_serves_memory_at_call_witness:
  "addRetxMetadata exact_ops example_env 1000 3000 200 (ucast (4 :: uint32_t)) example_sender
     = (Inr (projr (fst example_inserted)), snd example_inserted)
   \<and> (4 :: uint32_t) \<le> of_nat AVAIL_BOP_LEN
   \<and> msg_body (RETX_BOP_msg example_flags (example_mem(5000 := 255)) (example_header 0 0 0 128)
        (projr (fst example_inserted)) 4)
      = htonl (ucast (3000 :: size_t)) @ htons (ucast (4 :: uint32_t)) @ read_bytes example_mem 200 (unat (4 :: uint32_t))"
proof -
  have a: "addRetxMetadata exact_ops example_env 1000 3000 200 (ucast (4 :: uint32_t)) example_sender
     = (Inr (projr (fst example_inserted)), snd example_inserted)"
    using example_inserted_eq by (simp add: example_inserted_def)
  have b: "(4 :: uint32_t) \<le> of_nat AVAIL_BOP_LEN" by (simp add: AVAIL_BOP_LEN_def)
  have c: "\<forall>a. 200 \<le> a \<and> a < 200 + unat (4 :: uint32_t) \<longrightarrow> (example_mem(5000 := 255)) a = example_mem a"
    by simp
  from retransBOP_serves_memory_at_call[OF a b, of example_flags "example_mem(5000 := 255)"
         "example_header 0 0 0 128" 4 undefined example_mem] a b c
  show ?thesis by blast
qed


section \<open>sendProduct: the product index\<close>

lemma only_udp_refl: "only_udp s s"
  by (simp add: only_udp_def)

lemma only_udp_trans: "only_udp s s1 \<Longrightarrow> only_udp s1 s2 \<Longrightarrow> only_udp s s2"
  unfolding only_udp_def
  by (metis (no_types, lifting) vcmtpSendv3.surjective vcmtpSendv3.update_convs(9,10))

lemma only_udp_fields:
  "only_udp s s' \<Longrightarrow> prodIndex s' = prodIndex s \<and> timerDelayQ s' = timerDelayQ s
     \<and> sendMeta s' = sendMeta s \<and> exceptIsSet s' = exceptIsSet s \<and> except s' = except s"
  unfolding only_udp_def by (metis vcmtpSendv3.select_convs(1,5,11,16,17) vcmtpSendv3.surjective vcmtpSendv3.update_convs(9,10))

lemma UdpSend_send_only_udp: "only_udp s (snd (UdpSend_send d s))"
  by (simp add: UdpSend_send_def only_udp_def split: list.splits)

lemma sendData_loop_only_udp: "only_udp s (snd (sendData_loop fl mem hp data_p dataSize seqNum s))"
proof (induction fl mem hp data_p dataSize seqNum s rule: sendData_loop.induct)
  case (1 fl mem hp data_p dataSize seqNum s)
  let ?plen = "(if dataSize < of_nat VCMTP_DATA_LEN then ucast dataSize
                else of_nat VCMTP_DATA_LEN :: uint32_t)"
  let ?d = "\<lparr>dgram_header = \<lparr>net_prodindex = hp, net_seqnum = htonl seqNum,
                               net_payloadlen = htons (ucast ?plen),
                               net_flags = htons (VCMTP_MEM_DATA fl)\<rparr>,
             dgram_body = read_bytes mem data_p (unat ?plen)\<rparr>"
  let ?sent = "UdpSend_send ?d s"
  let ?rec = "sendData_loop fl mem hp (data_p + unat ?plen) (dataSize - ucast ?plen)
                (seqNum + ?plen) (snd ?sent)"
  show ?case
  proof (cases "0 < dataSize \<and> fst ?sent")
    case True
    have IH: "only_udp (snd ?sent) (snd ?rec)"
      using 1[OF _ refl refl refl] True by simp
    have eq: "sendData_loop fl mem hp data_p dataSize seqNum s = ?rec"
      using True by (subst sendData_loop.simps) (simp add: Let_def)
    have "only_udp s (snd ?rec)"
      using UdpSend_send_only_udp IH by (rule only_udp_trans)
    then show ?thesis by (simp only: eq)
  next
    case False
    then have "snd (sendData_loop fl mem hp data_p dataSize seqNum s) = s
             \<or> snd (sendData_loop fl mem hp data_p dataSize seqNum s) = snd ?sent"
      by (subst sendData_loop.simps, subst (2) sendData_loop.simps) (auto simp: Let_def)
    then show ?thesis
      using only_udp_refl[of s] UdpSend_send_only_udp[of s ?d] by auto
  qed
qed

lemma SendBOPMessage_only_udp: "only_udp s (snd (SendBOPMessage fl mem prodSize meta_p meta_size s))"
  by (simp add: SendBOPMessage_def Let_def UdpSend_send_only_udp)

lemma sendEOPMessage_only_udp: "only_udp s (snd (sendEOPMessage fl s))"
  by (simp add: sendEOPMessage_def Let_def UdpSend_send_only_udp)

lemma sendData_only_udp: "only_udp s (snd (sendData fl mem data_p dataSize s))"
  by (simp add: sendData_def sendData_loop_only_udp)

lemma addRetxMetadata_fields:
  "prodIndex (snd (addRetxMetadata ops env data_p dataSize meta_p ms s)) = prodIndex s
   \<and> timerDelayQ (snd (addRetxMetadata ops env data_p dataSize meta_p ms s)) = timerDelayQ s
   \<and> udp_sent (snd (addRetxMetadata ops env data_p dataSize meta_p ms s)) = udp_sent s"
  by (simp add: addRetxMetadata_def Let_def)

lemma setTimerParameters_fields:
  "prodIndex (snd (setTimerParameters ops env m s)) = prodIndex s
   \<and> timerDelayQ (snd (setTimerParameters ops env m s)) = timerDelayQ s
   \<and> udp_sent (snd (setTimerParameters ops env m s)) = udp_sent s"
  by (simp add: setTimerParameters_def Let_def)



lemma sendProduct_try_NoneE:
  assumes "sendProduct_try fl ops mem env data_p dataSize meta_p meta_size s = (None, s')"
  obtains m s1 s2 s3 s4 tm s5 where
    "sendProduct_validate data_p dataSize meta_p meta_size = None"
    "addRetxMetadata ops env data_p dataSize meta_p (ucast meta_size) s = (Inr m, s1)"
    "SendBOPMessage fl mem (ucast dataSize) meta_p meta_size s1 = (None, s2)"
    "sendData fl mem data_p dataSize s2 = (None, s3)"
    "sendEOPMessage fl s3 = (None, s4)"
    "setTimerParameters ops env m s4 = (tm, s5)"
    "\<not> push_throws env"
    "s' = s5\<lparr>timerDelayQ := timerDelayQ s5 @ [(prodIndex s5, retxTimeoutPeriod tm)]\<rparr>"
  using assms unfolding sendProduct_try_def
  by (auto split: option.splits prod.splits sum.splits if_splits)

lemma snd_eqD: "f = (a, b) \<Longrightarrow> snd f = b" by simp


lemma sendProduct_try_prodIndex:
  "prodIndex (snd (sendProduct_try fl ops mem env data_p dataSize meta_p meta_size s)) = prodIndex s"
proof -
  have A: "\<And>r s1. addRetxMetadata ops env data_p dataSize meta_p (ucast meta_size) s = (r, s1)
            \<Longrightarrow> prodIndex s1 = prodIndex s"
    using addRetxMetadata_fields[of ops env data_p dataSize meta_p "ucast meta_size" s] by simp
  have B: "\<And>r s1 s2. SendBOPMessage fl mem (ucast dataSize) meta_p meta_size s1 = (r, s2)
            \<Longrightarrow> prodIndex s2 = prodIndex s1"
    using SendBOPMessage_only_udp only_udp_fields by (metis snd_conv)
  have D: "\<And>r s2 s3. sendData fl mem data_p dataSize s2 = (r, s3) \<Longrightarrow> prodIndex s3 = prodIndex s2"
    using sendData_only_udp only_udp_fields by (metis snd_conv)
  have E: "\<And>r s3 s4. sendEOPMessage fl s3 = (r, s4) \<Longrightarrow> prodIndex s4 = prodIndex s3"
    using sendEOPMessage_only_udp only_udp_fields by (metis snd_conv)
  have T: "\<And>m tm s4 s5. setTimerParameters ops env m s4 = (tm, s5) \<Longrightarrow> prodIndex s5 = prodIndex s4"
    using setTimerParameters_fields by (metis snd_conv)
  show ?thesis
    unfolding sendProduct_try_def
    by (auto split: option.splits prod.splits sum.splits dest!: A B D E T)
qed


lemma sendData_loop_done: "sendData_loop fl mem hp data_p 0 seqNum s = (None, s)"
  by (subst sendData_loop.simps) simp

lemma sendProduct_example_returns:
  "fst (sendProduct example_flags exact_ops example_mem example_env 1000 3 NULL 0 example_sender)
     = Inr 0
   \<and> prodIndex (snd (sendProduct example_flags exact_ops example_mem example_env 1000 3 NULL 0
        example_sender)) = 1
   \<and> timerDelayQ (snd (sendProduct example_flags exact_ops example_mem example_env 1000 3 NULL 0
        example_sender)) = [(0, 1500000)]
   \<and> length (udp_sent (snd (sendProduct example_flags exact_ops example_mem example_env 1000 3 NULL 0
        example_sender))) = 3"
  by (simp add: sendProduct_def sendProduct_try_def sendProduct_validate_def NULL_def
      addRetxMetadata_def SendBOPMessage_def sendData_def sendEOPMessage_def
      setTimerParameters_def UdpSend_send_def write_entry_def senderMetadata_addRetxMetadata_def
      RetxMetadata_new_def Let_def
      sendData_loop.simps[of _ _ _ _ 3] sendData_loop_done
      example_sender_def example_env_def exact_ops_def
      vcmtpSendv3_new2_def vcmtpSendv3_new3_def VCMTP_DATA_LEN_def AVAIL_BOP_LEN_def)

lemma sendProduct_example_udp_failure:
  "fst (sendProduct example_flags exact_ops example_mem example_env 1000 3 NULL 0
         (example_sender\<lparr>udp_script := [True, False]\<rparr>)) = Inl std_exception
   \<and> prodIndex (snd (sendProduct example_flags exact_ops example_mem example_env 1000 3 NULL 0
        (example_sender\<lparr>udp_script := [True, False]\<rparr>))) = 0"
  by (simp add: sendProduct_def sendProduct_try_def sendProduct_validate_def NULL_def
      addRetxMetadata_def SendBOPMessage_def sendData_def sendEOPMessage_def
      setTimerParameters_def UdpSend_send_def write_entry_def senderMetadata_addRetxMetadata_def
      RetxMetadata_new_def Let_def taskExit_def Stop_def copy_as_std_exception_def
      RetxThreads_shutdown_def
      sendData_loop.simps[of _ _ _ _ 3] sendData_loop_done
      example_sender_def example_env_def exact_ops_def
      vcmtpSendv3_new2_def vcmtpSendv3_new3_def VCMTP_DATA_LEN_def AVAIL_BOP_LEN_def)



section \<open>sendProduct: the exception that leaves the call\<close>

lemma sendProduct_validate_iff:
  "(\<exists>msg. sendProduct_validate data_p dataSize meta_p meta_size = Some (invalid_argument msg))
     \<longleftrightarrow> (data_p = NULL \<or> dataSize > 0xFFFFFFFF
          \<or> (meta_p \<noteq> NULL \<and> of_nat AVAIL_BOP_LEN < meta_size)
          \<or> (meta_p = NULL \<and> meta_size \<noteq> 0))"
  by (auto simp: sendProduct_validate_def)

lemma sendProduct_validate_None_iff:
  "sendProduct_validate data_p dataSize meta_p meta_size = None
     \<longleftrightarrow> \<not> (data_p = NULL \<or> dataSize > 0xFFFFFFFF
          \<or> (meta_p \<noteq> NULL \<and> of_nat AVAIL_BOP_LEN < meta_size)
          \<or> (meta_p = NULL \<and> meta_size \<noteq> 0))"
  by (auto simp: sendProduct_validate_def)

lemma sendData_loop_exn:
  "fst (sendData_loop fl mem hp data_p dataSize seqNum s) = Some e \<Longrightarrow>
   e = runtime_error ''vcmtpSendv3::sendProduct::SendData() error''"
proof (induction fl mem hp data_p dataSize seqNum s rule: sendData_loop.induct)
  case (1 fl mem hp data_p dataSize seqNum s)
  let ?plen = "(if dataSize < of_nat VCMTP_DATA_LEN then ucast dataSize
                else of_nat VCMTP_DATA_LEN :: uint32_t)"
  let ?d = "\<lparr>dgram_header = \<lparr>net_prodindex = hp, net_seqnum = htonl seqNum,
                               net_payloadlen = htons (ucast ?plen),
                               net_flags = htons (VCMTP_MEM_DATA fl)\<rparr>,
             dgram_body = read_bytes mem data_p (unat ?plen)\<rparr>"
  let ?sent = "UdpSend_send ?d s"
  let ?rec = "sendData_loop fl mem hp (data_p + unat ?plen) (dataSize - ucast ?plen)
                (seqNum + ?plen) (snd ?sent)"
  show ?case
  proof (cases "0 < dataSize \<and> fst ?sent")
    case True
    have eq: "sendData_loop fl mem hp data_p dataSize seqNum s = ?rec"
      using True by (subst sendData_loop.simps) (simp add: Let_def)
    with "1.prems" have "fst ?rec = Some e" by simp
    with 1(1)[OF _ refl refl refl] True show ?thesis by simp
  next
    case False
    with "1.prems" show ?thesis
      by (subst (asm) sendData_loop.simps) (auto simp: Let_def split: if_splits)
  qed
qed

lemma sendProduct_try_invalid_iff:
  "(\<exists>msg. fst (sendProduct_try fl ops mem env data_p dataSize meta_p meta_size s)
            = Some (invalid_argument msg))
     \<longleftrightarrow> (data_p = NULL \<or> dataSize > 0xFFFFFFFF
          \<or> (meta_p \<noteq> NULL \<and> of_nat AVAIL_BOP_LEN < meta_size)
          \<or> (meta_p = NULL \<and> meta_size \<noteq> 0))"
proof (cases "sendProduct_validate data_p dataSize meta_p meta_size")
  case None
  have D: "\<And>e s2 s3. sendData fl mem data_p dataSize s2 = (Some e, s3) \<Longrightarrow>
             e = runtime_error ''vcmtpSendv3::sendProduct::SendData() error''"
    using sendData_loop_exn by (metis fst_conv sendData_def)
  have "\<And>msg. fst (sendProduct_try fl ops mem env data_p dataSize meta_p meta_size s)
            \<noteq> Some (invalid_argument msg)"
    using None unfolding sendProduct_try_def
    by (auto simp: addRetxMetadata_def SendBOPMessage_def sendEOPMessage_def Let_def
        split: option.splits prod.splits sum.splits if_splits dest!: D)
  with None show ?thesis
    using sendProduct_validate_None_iff[of data_p dataSize meta_p meta_size] by blast
next
  case (Some e)
  then have "fst (sendProduct_try fl ops mem env data_p dataSize meta_p meta_size s) = Some e"
    by (simp add: sendProduct_try_def)
  with Some show ?thesis
    using sendProduct_validate_iff[of data_p dataSize meta_p meta_size] by simp
qed

lemma sendProduct_try_slot:
  "except (snd (sendProduct_try fl ops mem env data_p dataSize meta_p meta_size s)) = except s"
proof -
  have A: "\<And>r s1. addRetxMetadata ops env data_p dataSize meta_p (ucast meta_size) s = (r, s1)
            \<Longrightarrow> except s1 = except s"
    by (auto simp: addRetxMetadata_def Let_def split: if_splits)
  have B: "\<And>r s1 s2. SendBOPMessage fl mem (ucast dataSize) meta_p meta_size s1 = (r, s2)
            \<Longrightarrow> except s2 = except s1"
    using SendBOPMessage_only_udp only_udp_fields by (metis snd_conv)
  have D: "\<And>r s2 s3. sendData fl mem data_p dataSize s2 = (r, s3) \<Longrightarrow> except s3 = except s2"
    using sendData_only_udp only_udp_fields by (metis snd_conv)
  have E: "\<And>r s3 s4. sendEOPMessage fl s3 = (r, s4) \<Longrightarrow> except s4 = except s3"
    using sendEOPMessage_only_udp only_udp_fields by (metis snd_conv)
  have T: "\<And>m tm s4 s5. setTimerParameters ops env m s4 = (tm, s5) \<Longrightarrow> except s5 = except s4"
    by (auto simp: setTimerParameters_def Let_def)
  show ?thesis
    unfolding sendProduct_try_def
    by (auto split: option.splits prod.splits sum.splits dest!: A B D E T)
qed

lemma sendProduct_never_invalid_argument:
  assumes "except s = std_exception"
  shows "fst (sendProduct fl ops mem env data_p dataSize meta_p meta_size s)
           \<noteq> Inl (invalid_argument msg)"
proof (cases "sendProduct_try fl ops mem env data_p dataSize meta_p meta_size s")
  case (Pair r s1)
  have "except s1 = std_exception"
    using sendProduct_try_slot[of fl ops mem env data_p dataSize meta_p meta_size s] Pair assms
    by simp
  then show ?thesis
    using Pair by (cases r) (auto simp: sendProduct_def taskExit_def Stop_def Let_def
        copy_as_std_exception_def split: prod.splits option.splits)
qed

text \<open>
  Claim C3 (the call fails with \<^verbatim>\<open>std::invalid_argument\<close> iff \<^verbatim>\<open>data\<close> is
  null, or \<^verbatim>\<open>dataSize\<close> exceeds \<open>2^32 - 1\<close>, or the metadata is non-null with
  \<^verbatim>\<open>metaSize > AVAIL_BOP_LEN\<close>, or the metadata is null with a non-zero
  \<^verbatim>\<open>metaSize\<close>). Inside the \<^verbatim>\<open>try\<close> block this is so
  (\<open>sendProduct_try_invalid_iff\<close>). The exception does not leave the call as thrown:
  the handler passes it to \<^verbatim>\<open>taskExit\<close>, which copies it into the error slot and
  calls \<^verbatim>\<open>Stop()\<close>, and \<^verbatim>\<open>Stop()\<close> throws the slot. With a null
  \<^verbatim>\<open>data\<close> the check throws \<^verbatim>\<open>std::invalid_argument\<close> and the call fails
  with a plain \<^verbatim>\<open>std::exception\<close>.
\<close>

theorem sendProduct_null_data_throws_std_exception:
  "sendProduct_validate NULL 3000 NULL 0
     = Some (invalid_argument ''vcmtpSendv3::sendProduct() data pointer is NULL'')
   \<and> fst (sendProduct example_flags exact_ops example_mem example_env NULL 3000 NULL 0 example_sender)
     = Inl std_exception"
  by (simp add: sendProduct_def sendProduct_try_def sendProduct_validate_def taskExit_def Stop_def
      copy_as_std_exception_def Let_def example_sender_def vcmtpSendv3_new2_def vcmtpSendv3_new3_def)


section \<open>The timeout period\<close>

text \<open>
  Where the values of the timer come from. Two of the three constructors set the ratio
  of the sender to the literal 500000.0, the third takes it from the caller;
  \<^verbatim>\<open>addRetxMetadata\<close> copies it into the entry, over the 20.0 of the constructor
  of \<^verbatim>\<open>RetxMetadata\<close>; and a call of \<^verbatim>\<open>sendProduct\<close> that reaches the end of
  its \<^verbatim>\<open>try\<close> block has pushed, for its index, what the floating-point product
  of the duration of the multicast and that ratio gave.
\<close>

lemma constructors_timeout_ratio:
  "retxTimeoutRatio (vcmtpSendv3_new1 ops) = float_lit ops 500000
   \<and> retxTimeoutRatio (vcmtpSendv3_new2 ops initProdIndex n) = float_lit ops 500000
   \<and> retxTimeoutRatio (vcmtpSendv3_new3 initProdIndex timeoutRatio n) = timeoutRatio"
  by (simp add: vcmtpSendv3_new1_def vcmtpSendv3_new2_def vcmtpSendv3_new3_def)

lemma sendProduct_try_pushes_period:
  assumes "sendProduct_try fl ops mem env data_p dataSize meta_p meta_size s = (None, s')"
  shows "timerDelayQ s' = timerDelayQ s @
           [(prodIndex s, period_mul ops (now_end env - now_start env) (retxTimeoutRatio s))]"
proof -
  from assms obtain m s1 s2 s3 s4 tm s5 where
    a: "addRetxMetadata ops env data_p dataSize meta_p (ucast meta_size) s = (Inr m, s1)"
    and b: "SendBOPMessage fl mem (ucast dataSize) meta_p meta_size s1 = (None, s2)"
    and d: "sendData fl mem data_p dataSize s2 = (None, s3)"
    and e: "sendEOPMessage fl s3 = (None, s4)"
    and t: "setTimerParameters ops env m s4 = (tm, s5)"
    and s': "s' = s5\<lparr>timerDelayQ := timerDelayQ s5 @ [(prodIndex s5, retxTimeoutPeriod tm)]\<rparr>"
    by (rule sendProduct_try_NoneE)
  from a have m: "mcastStartTime m = now_start env"
      "RetxMetadata.retxTimeoutRatio m = retxTimeoutRatio s"
    by (auto simp: addRetxMetadata_def Let_def split: if_splits)
  from t have tm: "retxTimeoutPeriod tm =
      period_mul ops (now_end env - mcastStartTime m) (RetxMetadata.retxTimeoutRatio m)"
    by (auto simp: setTimerParameters_def Let_def)
  have f1: "prodIndex s1 = prodIndex s \<and> timerDelayQ s1 = timerDelayQ s"
    using addRetxMetadata_fields[of ops env data_p dataSize meta_p "ucast meta_size" s] a by simp
  have "only_udp s1 s2"
    using SendBOPMessage_only_udp[of s1 fl mem "ucast dataSize" meta_p meta_size] b by simp
  moreover have "only_udp s2 s3" using sendData_only_udp[of s2 fl mem data_p dataSize] d by simp
  moreover have "only_udp s3 s4" using sendEOPMessage_only_udp[of s3 fl] e by simp
  ultimately have "only_udp s1 s4" by (blast intro: only_udp_trans)
  then have g: "prodIndex s4 = prodIndex s1 \<and> timerDelayQ s4 = timerDelayQ s1"
    by (simp add: only_udp_fields)
  have f5: "prodIndex s5 = prodIndex s4 \<and> timerDelayQ s5 = timerDelayQ s4"
    using setTimerParameters_fields[of ops env m s4] t by simp
  show ?thesis using s' m tm f1 g f5 by simp
qed

lemma write_entry_present:
  "m k = Some e \<Longrightarrow> write_entry k f m k = Some (f e)"
  by (simp add: write_entry_def)

lemma sendProduct_try_entry:
  assumes "sendProduct_try fl ops mem env data_p dataSize meta_p meta_size s = (None, s')"
  shows "\<exists>m. sendMeta s' (prodIndex s) = Some m
           \<and> RetxMetadata.retxTimeoutRatio m = retxTimeoutRatio s
           \<and> mcastStartTime m = now_start env \<and> mcastEndTime m = now_end env
           \<and> retxTimeoutPeriod m =
               period_mul ops (mcastEndTime m - mcastStartTime m) (RetxMetadata.retxTimeoutRatio m)"
proof -
  from assms obtain m s1 s2 s3 s4 tm s5 where
    a: "addRetxMetadata ops env data_p dataSize meta_p (ucast meta_size) s = (Inr m, s1)"
    and b: "SendBOPMessage fl mem (ucast dataSize) meta_p meta_size s1 = (None, s2)"
    and d: "sendData fl mem data_p dataSize s2 = (None, s3)"
    and e: "sendEOPMessage fl s3 = (None, s4)"
    and t: "setTimerParameters ops env m s4 = (tm, s5)"
    and s': "s' = s5\<lparr>timerDelayQ := timerDelayQ s5 @ [(prodIndex s5, retxTimeoutPeriod tm)]\<rparr>"
    by (rule sendProduct_try_NoneE)
  from a have m: "mcastStartTime m = now_start env"
      "RetxMetadata.retxTimeoutRatio m = retxTimeoutRatio s"
    by (auto simp: addRetxMetadata_def Let_def split: if_splits)
  have ent: "RetxMetadata.prodindex m = prodIndex s \<and> sendMeta s1 (prodIndex s) = Some m"
    using addRetxMetadata_entry[OF a] by simp
  have "only_udp s1 s2"
    using SendBOPMessage_only_udp[of s1 fl mem "ucast dataSize" meta_p meta_size] b by simp
  moreover have "only_udp s2 s3" using sendData_only_udp[of s2 fl mem data_p dataSize] d by simp
  moreover have "only_udp s3 s4" using sendEOPMessage_only_udp[of s3 fl] e by simp
  ultimately have "only_udp s1 s4" by (blast intro: only_udp_trans)
  then have "sendMeta s4 = sendMeta s1" by (simp add: only_udp_fields)
  with ent have s4: "sendMeta s4 (RetxMetadata.prodindex m) = Some m" by simp
  let ?timed = "(\<lambda>meta. meta\<lparr>mcastEndTime := now_end env,
                     retxTimeoutPeriod :=
                       period_mul ops (now_end env - mcastStartTime meta)
                         (RetxMetadata.retxTimeoutRatio meta)\<rparr>)"
  from t have tm: "tm = ?timed m"
    and s5: "sendMeta s5 = write_entry (RetxMetadata.prodindex m) ?timed (sendMeta s4)"
    by (auto simp: setTimerParameters_def Let_def)
  have "sendMeta s5 (RetxMetadata.prodindex m) = Some (?timed m)"
    unfolding s5 using s4 by (rule write_entry_present)
  then have "sendMeta s' (prodIndex s) = Some (?timed m)"
    using s' ent by simp
  then show ?thesis using m by simp
qed

text \<open>
  Claim C8 (for every product sent by \<^verbatim>\<open>sendProduct\<close>, the timeout period pushed
  into the delay queue is the duration of the multicast, \<open>mcast_end - mcast_start\<close>,
  multiplied by the ratio of the entry; that ratio is the ratio of the sender, which is
  500000.0 unless the caller of the constructor supplies one, and not the 20.0 of the
  constructor of \<^verbatim>\<open>RetxMetadata\<close>). The product is the floating-point one of
  \<^verbatim>\<open>setTimerParameters\<close>, \<open>period_mul\<close>, and the literals are \<open>float_lit\<close>. A call
  that returns the index \<open>r\<close> has pushed the pair of \<open>r\<close> and that product of the two
  clock readings' difference and the ratio of the sender; the entry of \<open>r\<close> in the table
  holds the two readings, the ratio of the sender, and the same period.
\<close>

theorem sendProduct_timeout_period:
  assumes "sendProduct fl ops mem env data_p dataSize meta_p meta_size s = (Inr r, s')"
  shows "timerDelayQ s' = timerDelayQ s @
           [(r, period_mul ops (now_end env - now_start env) (retxTimeoutRatio s))]
       \<and> (\<exists>m. sendMeta s' r = Some m
              \<and> mcastStartTime m = now_start env \<and> mcastEndTime m = now_end env
              \<and> RetxMetadata.retxTimeoutRatio m = retxTimeoutRatio s
              \<and> retxTimeoutPeriod m =
                  period_mul ops (mcastEndTime m - mcastStartTime m)
                    (RetxMetadata.retxTimeoutRatio m))
       \<and> retxTimeoutRatio (vcmtpSendv3_new1 ops) = float_lit ops 500000
       \<and> retxTimeoutRatio (vcmtpSendv3_new2 ops initProdIndex n) = float_lit ops 500000
       \<and> retxTimeoutRatio (vcmtpSendv3_new3 initProdIndex timeoutRatio n) = timeoutRatio
       \<and> RetxMetadata.retxTimeoutRatio (RetxMetadata_new ops) = float_lit ops 20"
proof -
  obtain e s1 where t: "sendProduct_try fl ops mem env data_p dataSize meta_p meta_size s = (e, s1)"
    by (cases "sendProduct_try fl ops mem env data_p dataSize meta_p meta_size s")
  with assms have n: "e = None" and r: "r = prodIndex s1"
    and s': "s' = s1\<lparr>prodIndex := prodIndex s1 + 1\<rparr>"
    by (auto simp: sendProduct_def split: option.splits prod.splits)
  from t n have t': "sendProduct_try fl ops mem env data_p dataSize meta_p meta_size s = (None, s1)"
    by simp
  have pi: "prodIndex s1 = prodIndex s"
    using sendProduct_try_prodIndex[of fl ops mem env data_p dataSize meta_p meta_size s] t by simp
  have q: "timerDelayQ s1 = timerDelayQ s @
           [(prodIndex s, period_mul ops (now_end env - now_start env) (retxTimeoutRatio s))]"
    using t' by (rule sendProduct_try_pushes_period)
  have ent: "\<exists>m. sendMeta s1 (prodIndex s) = Some m
           \<and> RetxMetadata.retxTimeoutRatio m = retxTimeoutRatio s
           \<and> mcastStartTime m = now_start env \<and> mcastEndTime m = now_end env
           \<and> retxTimeoutPeriod m =
               period_mul ops (mcastEndTime m - mcastStartTime m) (RetxMetadata.retxTimeoutRatio m)"
    using t' by (rule sendProduct_try_entry)
  show ?thesis
    using q ent r s' pi
    by (auto simp: constructors_timeout_ratio RetxMetadata_new_def)
qed

theorem sendProduct_timeout_period_witness:
  "sendProduct example_flags exact_ops example_mem example_env 1000 3 NULL 0 example_sender
     = (Inr 0, snd (sendProduct example_flags exact_ops example_mem example_env 1000 3 NULL 0
                      example_sender))
   \<and> timerDelayQ (snd (sendProduct example_flags exact_ops example_mem example_env 1000 3 NULL 0
                      example_sender))
     = timerDelayQ example_sender @
         [(0, period_mul exact_ops (now_end example_env - now_start example_env)
                (retxTimeoutRatio example_sender))]
   \<and> retxTimeoutRatio example_sender = float_lit exact_ops 500000"
proof -
  have h: "sendProduct example_flags exact_ops example_mem example_env 1000 3 NULL 0 example_sender
     = (Inr 0, snd (sendProduct example_flags exact_ops example_mem example_env 1000 3 NULL 0
                      example_sender))"
    using sendProduct_example_returns by (simp add: prod_eq_iff)
  from sendProduct_timeout_period[OF h] h show ?thesis
    by (simp add: example_sender_def vcmtpSendv3_new2_def vcmtpSendv3_new3_def)
qed

end
